theory Spec2Isabelle
  imports Main
begin

section \<open>Data exchanged between the extension and the backend\<close>

text \<open>
  \<open>Issue\<close> and \<open>AnalysisResult\<close> as \<open>llmClient.ts\<close> declares them. An issue's \<open>line\<close>
  is 1-based; the extension reads it as \<open>issue.line || 1\<close>, so a missing line is a value
  of its own here. \<open>AnalysisResult\<close> is the object \<open>analyzeCode\<close> returns, with every
  field filled in.
\<close>

record Issue =
  rule :: string
  message :: string
  line :: "int option"
  severity :: string
  fix_hint :: "string option"
  category :: "string option"

record AnalysisResult =
  issues :: "Issue list"
  score :: int
  grade :: string
  file_type :: string
  rules_checked :: nat

text \<open>
  The bodies of the backend's replies, at the type each public method asks
  \<open>makeRequest\<close> for. A field the client guards with \<open>||\<close> may be missing.
\<close>

record analyze_body =
  body_success :: bool
  body_issues :: "Issue list option"
  body_score :: "int option"
  body_grade :: "string option"
  body_file_type :: "string option"
  body_rules_checked :: "nat option"

record chat_body =
  chat_success :: bool
  reply :: "string option"

record fix_body =
  fix_success :: bool
  fixed_code :: "string option"

section \<open>The HTTP client (\<open>LLMClient\<close>)\<close>

subsection \<open>What one call of the HTTP library can do\<close>

text \<open>
  \<open>axios(config)\<close> is the only way the client reaches the backend. One call either gets
  an HTTP response (a status, the field \<open>error\<close> of its body when there is one, and the
  body read at the type the caller expects; \<open>None\<close> is a body that is \<open>null\<close>),
  or gets no response at all because the host cannot be reached or the timeout passed.
\<close>

datatype 'a outcome =
    Responded nat "string option" "'a option"
  | NetworkUnreachable
  | TimedOut

text \<open>
  The values a \<open>catch\<close> clause of the client can receive. An \<open>AxiosError\<close> carries the
  response when there was one; \<open>PlainError\<close> is \<open>new Error(message)\<close>; \<open>TypeError\<close>
  is a property read on \<open>null\<close>; \<open>Undefined\<close> is \<open>lastError\<close> before any assignment.
\<close>

datatype 'a thrown =
    AxiosError "(nat \<times> string option \<times> 'a option) option"
  | PlainError string
  | TypeError string
  | Undefined

text \<open>
  What a request sends: the method, and the \<open>data\<close> object each public method builds.
\<close>

datatype http_method = GET | POST

datatype payload =
    AnalyzeData string string
  | ChatData string string
  | FixData string string "Issue list" string

text \<open>
  Messages posted to the side panel (\<open>webview.postMessage\<close>), and the visible effects of
  the client and the panel provider in the order they happen: a call of \<open>axios\<close> with its
  method, URL, body and timeout, a \<open>delay(ms)\<close> between two attempts, a posted message,
  and the editor's notification pop-ups. Texts shown to the user are given without the
  pictographs the source puts in them.
\<close>

datatype webview_message =
    Fixing string
  | CodeFixed string
  | AnalysisComplete AnalysisResult int nat string
  | ErrorReport string

datatype event =
    Request http_method string "payload option" nat
  | Delay nat
  | PostMessage webview_message
  | ShowWarningMessage string
  | ShowInformationMessage string

text \<open>
  \<open>validateStatus\<close> is set by \<open>makeRequest\<close> to \<open>status < 500\<close>: the library resolves
  the promise for the statuses it accepts and rejects it with an \<open>AxiosError\<close> holding the
  response for the others. Without a response it always rejects.
\<close>

definition validateStatus :: "nat \<Rightarrow> bool" where
  "validateStatus status = (status < 500)"

definition axios :: "'a outcome \<Rightarrow> 'a thrown + (nat \<times> string option \<times> 'a option)" where
  "axios out =
     (case out of
        Responded status err body \<Rightarrow>
          if validateStatus status then Inr (status, err, body)
          else Inl (AxiosError (Some (status, err, body)))
      | NetworkUnreachable \<Rightarrow> Inl (AxiosError None)
      | TimedOut \<Rightarrow> Inl (AxiosError None))"

text \<open>Decimal rendering of a number inside a template string.\<close>

definition digit_char :: "nat \<Rightarrow> char" where
  "digit_char d =
     (if d = 0 then CHR ''0'' else if d = 1 then CHR ''1'' else if d = 2 then CHR ''2''
      else if d = 3 then CHR ''3'' else if d = 4 then CHR ''4'' else if d = 5 then CHR ''5''
      else if d = 6 then CHR ''6'' else if d = 7 then CHR ''7'' else if d = 8 then CHR ''8''
      else CHR ''9'')"

fun string_of_nat :: "nat \<Rightarrow> string" where
  "string_of_nat n =
     (if n < 10 then [digit_char n]
      else string_of_nat (n div 10) @ [digit_char (n mod 10)])"

declare string_of_nat.simps [simp del]

definition string_of_int :: "int \<Rightarrow> string" where
  "string_of_int i = (if i < 0 then CHR ''-'' # string_of_nat (nat (- i)) else string_of_nat (nat i))"

text \<open>\<open>x || fallback\<close> on strings: a missing and an empty string are both falsy.\<close>

definition or_default :: "string \<Rightarrow> string \<Rightarrow> string" where
  "or_default s fallback = (if s = [] then fallback else s)"

definition or_else :: "string option \<Rightarrow> string \<Rightarrow> string" where
  "or_else x fallback = (case x of None \<Rightarrow> fallback | Some s \<Rightarrow> or_default s fallback)"

subsection \<open>\<open>makeRequest\<close>\<close>

text \<open>
  The body of the \<open>try\<close> block for one attempt: the call, then the check
  \<open>response.status >= 400\<close>, which throws a plain \<open>Error\<close>, then the returned body.
\<close>

definition try_attempt :: "'a outcome \<Rightarrow> 'a thrown + 'a option" where
  "try_attempt out =
     (case axios out of
        Inl e \<Rightarrow> Inl e
      | Inr (status, err, body) \<Rightarrow>
          if status \<ge> 400
          then Inl (PlainError (''HTTP '' @ string_of_nat status @ '': '' @ or_else err ''Unknown error''))
          else Inr body)"

text \<open>
  The test that guards \<open>break\<close> in the \<open>catch\<close> block:
  \<open>axios.isAxiosError(error)\<close> with a response status of 400, 401, 403 or 404.
\<close>

definition no_retry :: "'a thrown \<Rightarrow> bool" where
  "no_retry e =
     (case e of
        AxiosError (Some (status, err, body)) \<Rightarrow>
          0 < status \<and> (status = 400 \<or> status = 401 \<or> status = 403 \<or> status = 404)
      | _ \<Rightarrow> False)"

text \<open>
  The \<open>for\<close> loop, from \<open>attempt\<close> on. \<open>srv k\<close> is what the backend does at the call of
  attempt \<open>k\<close>, \<open>req\<close> the request every attempt sends. The result is what
  \<open>makeRequest\<close> returns (\<open>Inr\<close>) or throws (\<open>Inl\<close>), with the events from this attempt on.
\<close>

function attempt_loop ::
  "(nat \<Rightarrow> 'a outcome) \<Rightarrow> nat \<Rightarrow> event \<Rightarrow> nat \<Rightarrow> 'a thrown \<Rightarrow> ('a thrown + 'a option) \<times> event list"
where
  "attempt_loop srv retryAttempts req attempt lastError =
     (if attempt \<le> retryAttempts then
        (case try_attempt (srv attempt) of
           Inr body \<Rightarrow> (Inr body, [req])
         | Inl e \<Rightarrow>
             if no_retry e then (Inl e, [req])
             else if attempt < retryAttempts then
               (case attempt_loop srv retryAttempts req (attempt + 1) e of
                  (r, evs) \<Rightarrow> (r, req # Delay (1000 * (attempt + 1)) # evs))
             else
               (case attempt_loop srv retryAttempts req (attempt + 1) e of
                  (r, evs) \<Rightarrow> (r, req # evs)))
      else (Inl lastError, []))"
  by pat_completeness auto
termination
  by (relation "measure (\<lambda>(srv, retryAttempts, req, attempt, lastError). retryAttempts + 1 - attempt)") auto

declare attempt_loop.simps [simp del]

record client =
  serverUrl :: string
  timeout :: nat
  retryAttempts :: nat

text \<open>The constructor's defaults, for the server URL the configuration gives.\<close>

definition new_client :: "string \<Rightarrow> client" where
  "new_client url = \<lparr> serverUrl = or_default url ''http://localhost:5000'',
                      timeout = 60000, retryAttempts = 2 \<rparr>"

definition makeRequest ::
  "client \<Rightarrow> (nat \<Rightarrow> 'a outcome) \<Rightarrow> string \<Rightarrow> http_method \<Rightarrow> payload option \<Rightarrow> nat
     \<Rightarrow> ('a thrown + 'a option) \<times> event list"
where
  "makeRequest c srv endpoint method data tmo =
     attempt_loop srv (retryAttempts c)
       (Request method (serverUrl c @ endpoint) (if method = POST then data else None) tmo)
       0 Undefined"

subsection \<open>Error messages\<close>

text \<open>
  \<open>handleError\<close> always throws a new \<open>Error\<close>; the function gives its message.
\<close>

definition handleError :: "client \<Rightarrow> 'a thrown \<Rightarrow> string \<Rightarrow> string" where
  "handleError c e operation =
     (case e of
        AxiosError (Some (status, err, body)) \<Rightarrow>
          (let message = operation @ '' failed (HTTP '' @ string_of_nat status @ '')'';
               message = (case err of
                            None \<Rightarrow> message
                          | Some d \<Rightarrow> if d = [] then message else message @ '': '' @ d)
           in if status = 401 \<or> status = 403
              then ''Authentication error. Please check backend API keys in .env file.''
              else if status = 500 then ''Server error. Check backend logs for details.''
              else if status = 503 then ''Service unavailable. Backend AI service may be down.''
              else message)
      | AxiosError None \<Rightarrow>
          ''Cannot connect to backend server at '' @ serverUrl c @ ''. ''
            @ ''Please ensure the Python backend is running. '' @ ''Start it with: python app.py''
      | PlainError m \<Rightarrow> operation @ '' failed: '' @ m
      | TypeError m \<Rightarrow> operation @ '' failed: '' @ m
      | Undefined \<Rightarrow> operation @ '' failed: Unknown error'')"

definition handleChatError :: "'a thrown \<Rightarrow> string" where
  "handleChatError e =
     (case e of
        AxiosError (Some (status, err, body)) \<Rightarrow>
          if status = 500
          then ''I encountered an internal error. The backend AI service may be experiencing issues. Please try again in a moment.''
          else ''I apologize, but I encountered an unexpected error. Please check the backend logs and try again.''
      | AxiosError None \<Rightarrow>
          ''I cannot reach the backend server. Please ensure it is running and try again.''
      | _ \<Rightarrow> ''I apologize, but I encountered an unexpected error. Please check the backend logs and try again.'')"

text \<open>Reading \<open>response.success\<close> when the body is \<open>null\<close>.\<close>

definition null_read :: "'a thrown" where
  "null_read = TypeError ''Cannot read properties of null''"

subsection \<open>The public methods\<close>

definition analyzeCode ::
  "client \<Rightarrow> (nat \<Rightarrow> analyze_body outcome) \<Rightarrow> string \<Rightarrow> string \<Rightarrow> (string + AnalysisResult) \<times> event list"
where
  "analyzeCode c srv code fileName =
     (case makeRequest c srv ''/analyze'' POST (Some (AnalyzeData code fileName)) (timeout c) of
        (Inr (Some response), evs) \<Rightarrow>
          if body_success response
          then (Inr \<lparr> issues = (case body_issues response of None \<Rightarrow> [] | Some i \<Rightarrow> i),
                       score = (case body_score response of None \<Rightarrow> 0 | Some s \<Rightarrow> s),
                       grade = or_else (body_grade response) ''N/A'',
                       file_type = or_else (body_file_type response) ''unknown'',
                       rules_checked = (case body_rules_checked response of None \<Rightarrow> 0 | Some n \<Rightarrow> n) \<rparr>,
                evs)
          else (Inl (handleError c
                       (PlainError ''Analysis failed: Invalid response from server'' :: analyze_body thrown)
                       ''Code analysis''), evs)
      | (Inr None, evs) \<Rightarrow> (Inl (handleError c (null_read :: analyze_body thrown) ''Code analysis''), evs)
      | (Inl e, evs) \<Rightarrow> (Inl (handleError c e ''Code analysis''), evs))"

definition chat ::
  "client \<Rightarrow> (nat \<Rightarrow> chat_body outcome) \<Rightarrow> string \<Rightarrow> string \<Rightarrow> string \<times> event list"
where
  "chat c srv msg context =
     (case makeRequest c srv ''/chat'' POST (Some (ChatData msg context)) 30000 of
        (Inr (Some response), evs) \<Rightarrow>
          if chat_success response
          then (or_else (reply response) ''No response from AI'', evs)
          else (''I apologize, but I encountered an error. Please try again.'', evs)
      | (Inr None, evs) \<Rightarrow> (handleChatError (null_read :: chat_body thrown), evs)
      | (Inl e, evs) \<Rightarrow> (handleChatError e, evs))"

definition fixCode ::
  "client \<Rightarrow> (nat \<Rightarrow> fix_body outcome) \<Rightarrow> string \<Rightarrow> string \<Rightarrow> Issue list \<Rightarrow> string
     \<Rightarrow> string \<times> event list"
where
  "fixCode c srv code err issue_list filename =
     (case makeRequest c srv ''/fix'' POST (Some (FixData code err issue_list filename)) (timeout c) of
        (Inr (Some response), evs) \<Rightarrow>
          if fix_success response \<and> or_else (fixed_code response) [] \<noteq> []
          then (or_else (fixed_code response) [], evs)
          else (code, evs @ [ShowWarningMessage ''Code fixing failed. Returning original code.''])
      | (Inr None, evs) \<Rightarrow>
          (code, evs @ [ShowWarningMessage ''Code fixing failed. Returning original code.''])
      | (Inl e, evs) \<Rightarrow>
          (code, evs @ [ShowWarningMessage ''Code fixing failed. Returning original code.'']))"

section \<open>The side panel (\<open>ChatbotViewProvider\<close>)\<close>

text \<open>
  The provider's fields. \<open>view\<close> tells whether the panel has been resolved
  (\<open>this._view\<close> is set); without it nothing is posted.
\<close>

record chatbot =
  view :: bool
  currentAnalysisResult :: "AnalysisResult option"
  currentCode :: string
  currentFileName :: string

definition post :: "chatbot \<Rightarrow> webview_message \<Rightarrow> event list" where
  "post cb m = (if view cb then [PostMessage m] else [])"

text \<open>
  \<open>showAnalysisResults\<close>, called by \<open>startAnalysis\<close> with the result of the analysis.
  \<open>result.score || 0\<close> is the score itself on a number.
\<close>

definition showAnalysisResults ::
  "chatbot \<Rightarrow> AnalysisResult \<Rightarrow> string \<Rightarrow> string \<Rightarrow> chatbot \<times> event list"
where
  "showAnalysisResults cb result code fileName =
     (let cb' = cb\<lparr> currentAnalysisResult := Some result, currentCode := code,
                     currentFileName := fileName \<rparr>
      in (cb', post cb' (AnalysisComplete result (if score result = 0 then 0 else score result)
                           (length (issues result)) fileName)))"

text \<open>
  \<open>handleFixCode\<close>: the fix request, then the analysis of the code it returned.
  \<open>errorDesc_of\<close> is the description it builds from the first issue, if there is one.
  \<open>srvFix\<close> and \<open>srvAnalyze\<close> are what the backend does at the attempts of the two
  requests. An analysis that fails is dropped silently; the fixed code stays.
\<close>

definition errorDesc_of :: "AnalysisResult \<Rightarrow> string" where
  "errorDesc_of current =
     (case issues current of
        [] \<Rightarrow> ''Multiple issues detected''
      | firstIssue # rest \<Rightarrow> rule firstIssue @ '': '' @ message firstIssue)"

definition handleFixCode ::
  "chatbot \<Rightarrow> client \<Rightarrow> (nat \<Rightarrow> fix_body outcome) \<Rightarrow> (nat \<Rightarrow> analyze_body outcome)
     \<Rightarrow> chatbot \<times> event list"
where
  "handleFixCode cb c srvFix srvAnalyze =
     (case currentAnalysisResult cb of
        None \<Rightarrow> (cb, [ShowWarningMessage ''No analysis results to fix''])
      | Some current \<Rightarrow>
          if currentCode cb = [] then (cb, [ShowWarningMessage ''No analysis results to fix''])
          else
            (let errorDesc = errorDesc_of current;
                 (fixedCode, fixEvents) =
                    fixCode c srvFix (currentCode cb) errorDesc (issues current) (currentFileName cb);
                 cb1 = cb\<lparr> currentCode := fixedCode \<rparr>;
                 before = post cb (Fixing ''AI is fixing your code...'') @ fixEvents
                          @ post cb1 (CodeFixed fixedCode)
                          @ [ShowInformationMessage ''Code fixed! Re-analyzing to update score...''];
                 (analysis, analyzeEvents) = analyzeCode c srvAnalyze fixedCode (currentFileName cb1)
             in case analysis of
                  Inr newResult \<Rightarrow>
                    (cb1\<lparr> currentAnalysisResult := Some newResult \<rparr>,
                     before @ analyzeEvents
                       @ post cb1 (AnalysisComplete newResult (score newResult)
                                     (length (issues newResult)) (currentFileName cb1))
                       @ [ShowInformationMessage
                            (''Score updated: '' @ string_of_int (score newResult) @ ''/100 (''
                               @ grade newResult @ '')'')])
                | Inl failure \<Rightarrow> (cb1, before @ analyzeEvents)))"

subsection \<open>The panel's page\<close>

text \<open>
  The elements of the score card that the page's script writes, and the chat messages it
  appends (text and class). \<open>webview_showAnalysisResults\<close> is the page's function
  \<open>showAnalysisResults(data)\<close>; \<open>receive\<close> is the page's message listener for the
  messages modelled here.
\<close>

record page =
  scoreCard_shown :: bool
  scoreNumber :: int
  scoreNumber_color :: string
  scoreRating :: string
  scoreRating_color :: string
  fileName_text :: string
  chatMessages :: "(string \<times> string) list"
  input_enabled :: bool

definition initial_page :: page where
  "initial_page = \<lparr> scoreCard_shown = False, scoreNumber = 0, scoreNumber_color = [],
                     scoreRating = ''Needs Improvement'', scoreRating_color = [],
                     fileName_text = ''test.py'',
                     chatMessages = [(''Ask me anything about your code!'', ''system'')],
                     input_enabled = True \<rparr>"

definition addMessage :: "string \<Rightarrow> string \<Rightarrow> page \<Rightarrow> page" where
  "addMessage txt kind p = p\<lparr> chatMessages := chatMessages p @ [(txt, kind)] \<rparr>"

definition webview_showAnalysisResults :: "int \<Rightarrow> string \<Rightarrow> page \<Rightarrow> page" where
  "webview_showAnalysisResults data_score data_fileName p =
     (let p1 = p\<lparr> scoreCard_shown := True, scoreNumber := data_score,
                   fileName_text := data_fileName \<rparr>;
          p2 = (if data_score \<ge> 80
                then p1\<lparr> scoreNumber_color := ''#00A651'', scoreRating := ''Excellent'',
                         scoreRating_color := ''#00A651'' \<rparr>
                else if data_score \<ge> 50
                then p1\<lparr> scoreNumber_color := ''#FF8C00'', scoreRating := ''Needs Improvement'',
                         scoreRating_color := ''#FF8C00'' \<rparr>
                else p1\<lparr> scoreNumber_color := ''#DC143C'', scoreRating := ''Poor'',
                         scoreRating_color := ''#DC143C'' \<rparr>);
          summary = (if data_score \<ge> 80
                     then ''Excellent work! Your code scored '' @ string_of_int data_score
                          @ ''/100. Code meets Schneider standards!''
                     else if data_score \<ge> 50
                     then ''Your code scored '' @ string_of_int data_score
                          @ ''/100. Some issues found. Click Auto-Fix to resolve them!''
                     else ''Your code scored '' @ string_of_int data_score
                          @ ''/100. Multiple violations found. Click Auto-Fix Code to fix all issues!'')
      in addMessage summary ''assistant'' p2)"

definition receive :: "webview_message \<Rightarrow> page \<Rightarrow> page" where
  "receive m p =
     (case m of
        AnalysisComplete result data_score issueCount data_fileName \<Rightarrow>
          webview_showAnalysisResults data_score data_fileName p
      | CodeFixed fixedCode \<Rightarrow>
          (addMessage ''Code has been fixed successfully!'' ''system'' p)\<lparr> input_enabled := True \<rparr>
      | Fixing txt \<Rightarrow> (addMessage txt ''system'' p)\<lparr> input_enabled := False \<rparr>
      | ErrorReport txt \<Rightarrow> (addMessage (''Error: '' @ txt) ''system'' p)\<lparr> input_enabled := True \<rparr>)"

text \<open>The page after the posted messages of a run, in order.\<close>

fun deliver :: "event list \<Rightarrow> page \<Rightarrow> page" where
  "deliver [] p = p"
| "deliver (PostMessage m # evs) p = deliver evs (receive m p)"
| "deliver (e # evs) p = deliver evs p"

section \<open>The extension (\<open>extension.ts\<close>)\<close>

subsection \<open>The status bar after an analysis\<close>

record StatusBarItem =
  item_text :: string
  backgroundColor :: "string option"

text \<open>
  The status bar update at the end of \<open>startAnalysis\<close>, for \<open>result.score || 0\<close> and
  \<open>result.grade\<close>.
\<close>

definition statusBar_update :: "int \<Rightarrow> string \<Rightarrow> StatusBarItem" where
  "statusBar_update sc gr =
     (if sc \<ge> 90
      then \<lparr> item_text = ''$(check) Score: '' @ string_of_int sc @ ''/100 ('' @ gr @ '')'',
             backgroundColor = None \<rparr>
      else if sc \<ge> 70
      then \<lparr> item_text = ''$(warning) Score: '' @ string_of_int sc @ ''/100 ('' @ gr @ '')'',
             backgroundColor = Some ''statusBarItem.warningBackground'' \<rparr>
      else \<lparr> item_text = ''$(error) Score: '' @ string_of_int sc @ ''/100 ('' @ gr @ '')'',
             backgroundColor = Some ''statusBarItem.errorBackground'' \<rparr>)"

text \<open>
  What the user sees of the score after a successful analysis started from the editor:
  the status bar item, and the page once it has received what the provider posted.
\<close>

definition analyze_path :: "chatbot \<Rightarrow> AnalysisResult \<Rightarrow> string \<Rightarrow> string \<Rightarrow> page \<Rightarrow> StatusBarItem \<times> page" where
  "analyze_path cb result code fileName p =
     (statusBar_update (if score result = 0 then 0 else score result) (grade result),
      deliver (snd (showAnalysisResults cb result code fileName)) p)"

text \<open>
  What the user sees after \<open>handleFixCode\<close>: that path never writes the status bar, so
  the item is the one it was given, and the page has received every posted message.
\<close>

definition reanalyze_path ::
  "chatbot \<Rightarrow> client \<Rightarrow> (nat \<Rightarrow> fix_body outcome) \<Rightarrow> (nat \<Rightarrow> analyze_body outcome)
     \<Rightarrow> StatusBarItem \<Rightarrow> page \<Rightarrow> StatusBarItem \<times> page"
where
  "reanalyze_path cb c srvFix srvAnalyze bar p =
     (bar, deliver (snd (handleFixCode cb c srvFix srvAnalyze)) p)"

text \<open>
  The two renderings use three levels each. For comparing them, the level a rendering
  shows: the status bar by its background colour, the score card by its rating.
\<close>

datatype band = Upper | Middle | Lower

definition statusBar_band :: "StatusBarItem \<Rightarrow> band" where
  "statusBar_band bar =
     (case backgroundColor bar of
        None \<Rightarrow> Upper
      | Some colour \<Rightarrow> if colour = ''statusBarItem.warningBackground'' then Middle else Lower)"

definition scoreRating_band :: "page \<Rightarrow> band" where
  "scoreRating_band p =
     (if scoreRating p = ''Excellent'' then Upper
      else if scoreRating p = ''Needs Improvement'' then Middle else Lower)"

subsection \<open>The analysis history\<close>

record AnalysisHistory =
  timestamp :: string
  fileName :: string
  filePath :: string
  score :: int
  grade :: string
  issueCount :: nat
  fileType :: string

text \<open>
  The module variable \<open>analysisHistory\<close> and the copy kept under the key
  \<open>schneider.analysisHistory\<close> of the editor's global state.
\<close>

record history_store =
  analysisHistory :: "AnalysisHistory list"
  globalState :: "AnalysisHistory list"

text \<open>The entry \<open>startAnalysis\<close> builds from a result, at the time \<open>now\<close>.\<close>

definition historyEntry ::
  "string \<Rightarrow> string \<Rightarrow> string \<Rightarrow> string \<Rightarrow> AnalysisResult \<Rightarrow> AnalysisHistory"
where
  "historyEntry now name path fileExtension result =
     \<lparr> timestamp = now, fileName = name, filePath = path,
       score = (if AnalysisResult.score result = 0 then 0 else AnalysisResult.score result),
       grade = or_default (AnalysisResult.grade result) ''N/A'',
       issueCount = length (issues result),
       fileType = or_default (file_type result) fileExtension \<rparr>"

text \<open>
  Saving an entry: \<open>unshift\<close> puts it in front, a list longer than 50 is cut to its
  first 50 entries, and the list is written to the global state.
\<close>

definition save_to_history :: "AnalysisHistory \<Rightarrow> history_store \<Rightarrow> history_store" where
  "save_to_history entry st =
     (let h = entry # analysisHistory st;
          h = (if length h > 50 then take 50 h else h)
      in \<lparr> analysisHistory = h, globalState = h \<rparr>)"

definition loadAnalysisHistory :: "history_store \<Rightarrow> history_store" where
  "loadAnalysisHistory st = st\<lparr> analysisHistory := globalState st \<rparr>"

text \<open>\<open>clearAnalysisHistory\<close>, for the answer the user gives to the confirmation.\<close>

definition clearAnalysisHistory :: "bool \<Rightarrow> history_store \<Rightarrow> history_store" where
  "clearAnalysisHistory confirmed st =
     (if confirmed then \<lparr> analysisHistory = [], globalState = [] \<rparr> else st)"

definition empty_store :: history_store where
  "empty_store = \<lparr> analysisHistory = [], globalState = [] \<rparr>"

text \<open>A sequence of analyses, each saving its entry; the first of the list is saved first.\<close>

definition save_all :: "AnalysisHistory list \<Rightarrow> history_store \<Rightarrow> history_store" where
  "save_all entries st = foldl (\<lambda>s entry. save_to_history entry s) st entries"

subsection \<open>Diagnostics\<close>

text \<open>
  The editor's types as far as \<open>showDiagnostics\<close> uses them. Lines and characters of a
  range are 0-based. The editor's \<open>Position\<close> constructor refuses a negative line or
  character with an \<open>illegal argument\<close> error, and nothing else; a position beyond the
  end of the document is accepted.
\<close>

record TextDocument =
  uri :: string
  lineCount :: nat

record Range =
  start_line :: int
  start_character :: int
  end_line :: int
  end_character :: int

datatype DiagnosticSeverity = Error | Warning | Information

datatype DiagnosticTag = Deprecated

datatype vscode_error = IllegalArgument

record Diagnostic =
  diag_range :: Range
  diag_message :: string
  diag_severity :: DiagnosticSeverity
  diag_source :: string
  diag_code :: string
  relatedInformation :: "(string \<times> Range \<times> string) list"
  tags :: "DiagnosticTag list"

definition MAX_SAFE_INTEGER :: int where
  "MAX_SAFE_INTEGER = 9007199254740991"

definition new_Range :: "int \<Rightarrow> int \<Rightarrow> int \<Rightarrow> int \<Rightarrow> vscode_error + Range" where
  "new_Range startLine startCharacter endLine endCharacter =
     (if startLine < 0 \<or> startCharacter < 0 \<or> endLine < 0 \<or> endCharacter < 0
      then Inl IllegalArgument
      else Inr \<lparr> start_line = startLine, start_character = startCharacter,
                 end_line = endLine, end_character = endCharacter \<rparr>)"

text \<open>
  Numbers are IEEE doubles in the code. \<open>line\<close> holds the integer written in the
  backend's reply; the client reads it as the nearest double, and \<open>- 1\<close> gives the
  double nearest to the exact difference. A double has a significand of 53 bits:
  \<open>spacing n\<close> is the distance between neighbouring doubles at the magnitude \<open>n\<close>
  (1 below \<open>2 ^ 53 = 9007199254740992\<close>, doubling with every further bit), and
  \<open>nearest_double n\<close> rounds \<open>n\<close> to a multiple of it, a tie going to the even
  significand. This is the arithmetic of finite doubles: it holds for integers up to
  \<open>double_max\<close> in magnitude, beyond which the code reads \<open>Infinity\<close>.
\<close>

function spacing :: "nat \<Rightarrow> nat" where
  "spacing n = (if n < 9007199254740992 then 1 else 2 * spacing (n div 2))"
  by pat_completeness auto
termination
  by (relation "measure (\<lambda>n. n)") auto

declare spacing.simps [simp del]

definition nearest_double :: "nat \<Rightarrow> nat" where
  "nearest_double n =
     (let q = spacing n; m = n div q; r = n mod q
      in (if 2 * r > q \<or> (2 * r = q \<and> odd m) then m + 1 else m) * q)"

definition to_double :: "int \<Rightarrow> int" where
  "to_double x = (if x < 0 then - int (nearest_double (nat (- x))) else int (nearest_double (nat x)))"

definition double_max :: int where
  "double_max = (2 ^ 53 - 1) * 2 ^ 971"

text \<open>\<open>Math.max(0, (issue.line || 1) - 1)\<close>: a missing line and line 0 both count as 1.\<close>

definition diagnostic_line :: "Issue \<Rightarrow> int" where
  "diagnostic_line issue =
     max 0 (to_double
              ((case line issue of
                  None \<Rightarrow> 1
                | Some l \<Rightarrow> if to_double l = 0 then 1 else to_double l) - 1))"

text \<open>The body of the \<open>for\<close> loop: the diagnostic of one issue.\<close>

definition diagnostic_of :: "TextDocument \<Rightarrow> Issue \<Rightarrow> vscode_error + Diagnostic" where
  "diagnostic_of document issue =
     (let l = diagnostic_line issue in
      case new_Range l 0 l MAX_SAFE_INTEGER of
        Inl e \<Rightarrow> Inl e
      | Inr r \<Rightarrow>
          Inr \<lparr> diag_range = r,
                diag_message = or_default (message issue) ''Code quality issue detected'',
                diag_severity =
                  (if severity issue = ''critical'' \<or> severity issue = ''error'' then Error
                   else if severity issue = ''warning'' then Warning
                   else Information),
                diag_source = ''Schneider AI'',
                diag_code = or_default (rule issue) ''UNKNOWN'',
                relatedInformation =
                  (case fix_hint issue of
                     None \<Rightarrow> []
                   | Some f \<Rightarrow> if f = [] then [] else [(uri document, r, ''Suggested fix: '' @ f)]),
                tags = (if severity issue = ''critical'' then [Deprecated] else []) \<rparr>)"

text \<open>The loop: the first failing issue ends it with its error.\<close>

fun diagnostics_of :: "TextDocument \<Rightarrow> Issue list \<Rightarrow> vscode_error + Diagnostic list" where
  "diagnostics_of document [] = Inr []"
| "diagnostics_of document (issue # rest) =
     (case diagnostic_of document issue of
        Inl e \<Rightarrow> Inl e
      | Inr d \<Rightarrow>
          (case diagnostics_of document rest of
             Inl e \<Rightarrow> Inl e
           | Inr ds \<Rightarrow> Inr (d # ds)))"

text \<open>
  \<open>showDiagnostics\<close>: the collection with the document's entry replaced by the new list.
\<close>

definition showDiagnostics ::
  "TextDocument \<Rightarrow> Issue list \<Rightarrow> (string \<rightharpoonup> Diagnostic list)
     \<Rightarrow> vscode_error + (string \<rightharpoonup> Diagnostic list)"
where
  "showDiagnostics document issue_list diagnosticCollection =
     (case diagnostics_of document issue_list of
        Inl e \<Rightarrow> Inl e
      | Inr diagnostics \<Rightarrow> Inr (diagnosticCollection(uri document \<mapsto> diagnostics)))"

text \<open>
  A 0-based line is a line of the document when it is below the line count; this is the
  1-based range from 1 to the line count.
\<close>

definition line_in_document :: "TextDocument \<Rightarrow> int \<Rightarrow> bool" where
  "line_in_document document l = (0 \<le> l \<and> l < int (lineCount document))"

section \<open>The backend's reply parser (\<open>parse_llm_response\<close>)\<close>







text \<open>
  \<open>json.loads\<close> belongs to Python's library and is a parameter. \<open>loads t\<close> is
  \<open>Decoded v\<close> when decoding \<open>t\<close> gives the array \<open>v\<close>, \<open>JSONDecodeError\<close> when it
  raises that error, and \<open>Raised e\<close> when it raises another exception: the library
  raises \<open>RecursionError\<close> on a text nested too deeply and \<open>ValueError\<close> on an integer
  of more digits than the interpreter converts. It is only called on texts whose first
  character after white space is \<open>[\<close>, for which a decoded value is an array.

  \<open>strip_fences\<close> is the reply with the two code-fence markers removed (the character
  \<open>0x60\<close> is the backquote). \<open>decoded\<close> is a call of \<open>json.loads\<close> inside the \<open>try\<close>:
  the \<open>except\<close> clause names \<open>json.JSONDecodeError\<close> only, logs the failure (the second
  component of the result) and returns the empty list; any other exception leaves the
  function (\<open>Inl\<close>).
\<close>

datatype py_exception = RecursionError | ValueError







section \<open>Notions used to state the properties\<close>

text \<open>
  The events of \<open>n\<close> attempts sending \<open>req\<close>, the first of them attempt number
  \<open>first\<close>, with the delay \<open>1000 * k\<close> before attempt number \<open>k\<close>.
\<close>

definition attempts_trace :: "event \<Rightarrow> nat \<Rightarrow> nat \<Rightarrow> event list" where
  "attempts_trace req first n =
     req # concat (map (\<lambda>k. [Delay (1000 * k), req]) [first + 1 ..< first + n])"

text \<open>
  An attempt fails when it gets no response or a response with a status of 400 or more.
\<close>

definition attempt_fails :: "'a outcome \<Rightarrow> bool" where
  "attempt_fails out = (case out of Responded status err body \<Rightarrow> 400 \<le> status | _ \<Rightarrow> True)"

text \<open>Requests told apart by what they carry.\<close>

definition is_fix_request :: "event \<Rightarrow> bool" where
  "is_fix_request e =
     (case e of Request m url (Some (FixData c d i f)) t \<Rightarrow> True | _ \<Rightarrow> False)"

definition is_analyze_request :: "event \<Rightarrow> bool" where
  "is_analyze_request e =
     (case e of Request m url (Some (AnalyzeData c f)) t \<Rightarrow> True | _ \<Rightarrow> False)"

definition analyzed_code :: "event \<Rightarrow> string option" where
  "analyzed_code e =
     (case e of Request m url (Some (AnalyzeData c f)) t \<Rightarrow> Some c | _ \<Rightarrow> None)"

text \<open>A three-level step function of the score with the thresholds \<open>hi\<close> and \<open>lo\<close>.\<close>

definition step_band :: "int \<Rightarrow> int \<Rightarrow> int \<Rightarrow> band" where
  "step_band hi lo s = (if s \<ge> hi then Upper else if s \<ge> lo then Middle else Lower)"

text \<open>
  A line written in the reply that the client reads as a finite double.
\<close>

definition finite_line :: "Issue \<Rightarrow> bool" where
  "finite_line issue = (case line issue of None \<Rightarrow> True | Some l \<Rightarrow> \<bar>l\<bar> \<le> double_max)"

text \<open>
  The 0-based lines of the diagnostics that \<open>showDiagnostics\<close> leaves for the document,
  \<open>None\<close> when it fails.
\<close>

definition diagnostic_lines ::
  "TextDocument \<Rightarrow> Issue list \<Rightarrow> (string \<rightharpoonup> Diagnostic list) \<Rightarrow> int list option"
where
  "diagnostic_lines document issue_list coll =
     (case showDiagnostics document issue_list coll of
        Inl e \<Rightarrow> None
      | Inr coll' \<Rightarrow> map_option (map (\<lambda>d. start_line (diag_range d))) (coll' (uri document)))"

section \<open>The retry loop\<close>

lemma try_attempt_never_no_retry: "try_attempt out = Inl e \<Longrightarrow> \<not> no_retry e"
  by (cases out) (auto simp: try_attempt_def axios_def validateStatus_def no_retry_def split: if_splits)

lemma try_attempt_fails_iff: "attempt_fails out \<longleftrightarrow> (\<exists>e. try_attempt out = Inl e)"
  by (cases out) (auto simp: try_attempt_def axios_def validateStatus_def attempt_fails_def)

lemma loop_past_end: "R < a \<Longrightarrow> attempt_loop srv R req a e = (Inl e, [])"
  by (subst attempt_loop.simps) simp

lemma loop_success:
  "a \<le> R \<Longrightarrow> try_attempt (srv a) = Inr b \<Longrightarrow> attempt_loop srv R req a e = (Inr b, [req])"
  by (subst attempt_loop.simps) simp

lemma loop_break:
  "a \<le> R \<Longrightarrow> try_attempt (srv a) = Inl err \<Longrightarrow> no_retry err
     \<Longrightarrow> attempt_loop srv R req a e = (Inl err, [req])"
  by (subst attempt_loop.simps) simp

lemma loop_retry:
  "a < R \<Longrightarrow> try_attempt (srv a) = Inl err \<Longrightarrow> \<not> no_retry err
     \<Longrightarrow> attempt_loop srv R req a e =
           (fst (attempt_loop srv R req (a + 1) err),
            req # Delay (1000 * (a + 1)) # snd (attempt_loop srv R req (a + 1) err))"
  by (subst attempt_loop.simps) (simp split: prod.splits)

lemma loop_last:
  "try_attempt (srv R) = Inl err \<Longrightarrow> \<not> no_retry err
     \<Longrightarrow> attempt_loop srv R req R e = (Inl err, [req])"
  by (subst attempt_loop.simps) (simp add: loop_past_end)

lemma loop_trace:
  "a \<le> R \<Longrightarrow> \<exists>n. 1 \<le> n \<and> a + n \<le> R + 1 \<and> snd (attempt_loop srv R req a e) = attempts_trace req a n"
proof (induction srv R req a e rule: attempt_loop.induct)
  case (1 srv R req a e)
  note aR = \<open>a \<le> R\<close>
  have one: "snd (attempt_loop srv R req a e) = [req] \<Longrightarrow> ?case"
    using aR by (intro exI[of _ 1]) (simp add: attempts_trace_def)
  show ?case
  proof (cases "try_attempt (srv a)")
    case (Inr body)
    then show ?thesis using one loop_success[of a R srv body req e] aR by simp
  next
    case (Inl err)
    have nr: "\<not> no_retry err" using Inl by (rule try_attempt_never_no_retry)
    show ?thesis
    proof (cases "a < R")
      case True
      then have le: "a + 1 \<le> R" by simp
      from 1(1)[OF aR Inl nr True le] obtain n where
        n: "1 \<le> n" "a + 1 + n \<le> R + 1"
           "snd (attempt_loop srv R req (a + 1) err) = attempts_trace req (a + 1) n"
        by auto
      have "snd (attempt_loop srv R req a e)
              = req # Delay (1000 * (a + 1)) # attempts_trace req (a + 1) n"
        using loop_retry[of a R srv err req e] True Inl nr n(3) by simp
      also have "\<dots> = attempts_trace req a (n + 1)"
        using n(1) by (simp add: attempts_trace_def upt_conv_Cons)
      finally show ?thesis using n(1,2) by (intro exI[of _ "n + 1"]) simp
    next
      case False
      with aR have eq: "a = R" by simp
      show ?thesis using one loop_last[of srv R err req e] Inl nr eq by simp
    qed
  qed
qed

lemma loop_first_success:
  "a \<le> k \<Longrightarrow> k \<le> R \<Longrightarrow> (\<forall>j. a \<le> j \<and> j < k \<longrightarrow> attempt_fails (srv j))
     \<Longrightarrow> try_attempt (srv k) = Inr b
     \<Longrightarrow> attempt_loop srv R req a e = (Inr b, attempts_trace req a (k + 1 - a))"
proof (induction "k - a" arbitrary: a e)
  case 0
  then have "a = k" by simp
  then show ?case using 0 loop_success[of k R srv b req e] by (simp add: attempts_trace_def)
next
  case (Suc d)
  then have ak: "a < k" by simp
  then have "attempt_fails (srv a)" using Suc.prems(3) by simp
  then obtain x where x: "try_attempt (srv a) = Inl x" by (auto simp: try_attempt_fails_iff)
  have nr: "\<not> no_retry x" using x by (rule try_attempt_never_no_retry)
  have aR: "a < R" using ak Suc.prems(2) by simp
  have d: "d = k - (a + 1)" using Suc.hyps(2) by simp
  have ih: "attempt_loop srv R req (a + 1) x = (Inr b, attempts_trace req (a + 1) (k + 1 - (a + 1)))"
    using Suc.hyps(1)[OF d, of x] ak Suc.prems by simp
  have "attempt_loop srv R req a e
          = (Inr b, req # Delay (1000 * (a + 1)) # attempts_trace req (a + 1) (k - a))"
    using loop_retry[of a R srv x req e] aR x nr ih by simp
  moreover have "req # Delay (1000 * (a + 1)) # attempts_trace req (a + 1) (k - a)
                   = attempts_trace req a (k + 1 - a)"
    using ak by (simp add: attempts_trace_def upt_conv_Cons Suc_diff_le)
  ultimately show ?case by simp
qed

lemma loop_all_fail:
  "a \<le> R \<Longrightarrow> (\<forall>j. a \<le> j \<and> j \<le> R \<longrightarrow> attempt_fails (srv j))
     \<Longrightarrow> attempt_loop srv R req a e = (try_attempt (srv R), attempts_trace req a (R + 1 - a))"
proof (induction "R - a" arbitrary: a e)
  case 0
  then have eq: "a = R" by simp
  have "attempt_fails (srv R)" using 0 by simp
  then obtain x where x: "try_attempt (srv R) = Inl x" by (auto simp: try_attempt_fails_iff)
  have nr: "\<not> no_retry x" using x by (rule try_attempt_never_no_retry)
  show ?case using loop_last[of srv R x req e] x nr eq by (simp add: attempts_trace_def)
next
  case (Suc d)
  then have aR: "a < R" by simp
  have "attempt_fails (srv a)" using Suc.prems by simp
  then obtain x where x: "try_attempt (srv a) = Inl x" by (auto simp: try_attempt_fails_iff)
  have nr: "\<not> no_retry x" using x by (rule try_attempt_never_no_retry)
  have d: "d = R - (a + 1)" using Suc.hyps(2) by simp
  have ih: "attempt_loop srv R req (a + 1) x
              = (try_attempt (srv R), attempts_trace req (a + 1) (R + 1 - (a + 1)))"
    using Suc.hyps(1)[OF d, of x] aR Suc.prems by simp
  have "attempt_loop srv R req a e
          = (try_attempt (srv R), req # Delay (1000 * (a + 1)) # attempts_trace req (a + 1) (R - a))"
    using loop_retry[of a R srv x req e] aR x nr ih by simp
  moreover have "req # Delay (1000 * (a + 1)) # attempts_trace req (a + 1) (R - a)
                   = attempts_trace req a (R + 1 - a)"
    using aR by (simp add: attempts_trace_def upt_conv_Cons Suc_diff_le)
  ultimately show ?case by simp
qed

text \<open>Every run of the loop is one of the two.\<close>

lemma first_success_or_all_fail:
  "(\<forall>j\<le>(R::nat). attempt_fails (srv j)) \<or>
   (\<exists>k\<le>R. (\<forall>j<k. attempt_fails (srv j)) \<and> \<not> attempt_fails (srv k))"
proof (cases "\<forall>j\<le>R. attempt_fails (srv j)")
  case True then show ?thesis by simp
next
  case False
  then obtain m where m: "m \<le> R" "\<not> attempt_fails (srv m)" by auto
  define k where "k = (LEAST i. \<not> attempt_fails (srv i))"
  have k1: "\<not> attempt_fails (srv k)" unfolding k_def using m(2) LeastI[of "\<lambda>i. \<not> attempt_fails (srv i)" m] by simp
  have k2: "k \<le> m" unfolding k_def using m(2) Least_le[of "\<lambda>i. \<not> attempt_fails (srv i)" m] by simp
  have k3: "\<forall>j<k. attempt_fails (srv j)" unfolding k_def using not_less_Least[of _ "\<lambda>i. \<not> attempt_fails (srv i)"] by blast
  show ?thesis using k1 k2 k3 m(1) by (intro disjI2 exI[of _ k]) simp
qed

lemma makeRequest_first_success:
  "k \<le> retryAttempts c \<Longrightarrow> (\<forall>j<k. attempt_fails (srv j)) \<Longrightarrow> try_attempt (srv k) = Inr b
     \<Longrightarrow> makeRequest c srv endpoint method data tmo =
           (Inr b, attempts_trace (Request method (serverUrl c @ endpoint) (if method = POST then data else None) tmo) 0 (k + 1))"
  unfolding makeRequest_def
  using loop_first_success[of 0 k "retryAttempts c" srv b] by simp

lemma makeRequest_all_fail:
  "(\<forall>j\<le>retryAttempts c. attempt_fails (srv j))
     \<Longrightarrow> makeRequest c srv endpoint method data tmo =
           (try_attempt (srv (retryAttempts c)),
            attempts_trace (Request method (serverUrl c @ endpoint) (if method = POST then data else None) tmo) 0 (retryAttempts c + 1))"
  unfolding makeRequest_def
  using loop_all_fail[of 0 "retryAttempts c" srv] by simp

lemma try_attempt_ok:
  "status < 400 \<Longrightarrow> try_attempt (Responded status err b) = Inr b"
  by (simp add: try_attempt_def axios_def validateStatus_def)

lemma not_fails_Responded:
  "\<not> attempt_fails out \<Longrightarrow> \<exists>status err b. out = Responded status err b \<and> status < 400"
  by (cases out) (auto simp: attempt_fails_def)

lemma string_of_nat_401: "string_of_nat 401 = ''401''"
  by (simp add: string_of_nat.simps digit_char_def)

text \<open>
  C1. A client-fault status does not end the call at once. The backend answers every
  attempt of an analysis request with status 401: the client sends the request three
  times, waiting 1000 ms and 2000 ms in between, before it fails.
\<close>

theorem makeRequest_retries_client_fault:
  "makeRequest (new_client [])
     (\<lambda>k. Responded 401 (Some ''Unauthorized'') (None :: analyze_body option))
     ''/analyze'' POST (Some (AnalyzeData ''x = 1'' ''a.py'')) 60000
   = (Inl (PlainError ''HTTP 401: Unauthorized''),
      [Request POST ''http://localhost:5000/analyze'' (Some (AnalyzeData ''x = 1'' ''a.py'')) 60000,
       Delay 1000,
       Request POST ''http://localhost:5000/analyze'' (Some (AnalyzeData ''x = 1'' ''a.py'')) 60000,
       Delay 2000,
       Request POST ''http://localhost:5000/analyze'' (Some (AnalyzeData ''x = 1'' ''a.py'')) 60000])"
proof -
  have "retryAttempts (new_client []) = 2" "serverUrl (new_client []) = ''http://localhost:5000''"
    by (simp_all add: new_client_def or_default_def)
  moreover have "try_attempt (Responded 401 (Some ''Unauthorized'') (None :: analyze_body option))
                   = Inl (PlainError ''HTTP 401: Unauthorized'')"
    by (simp add: try_attempt_def axios_def validateStatus_def or_else_def or_default_def
                  string_of_nat_401)
  moreover have "[0 + 1 ..< 0 + (2 + 1)] = [1, 2::nat]"
    by (simp add: upt_conv_Cons)
  ultimately show ?thesis
    by (simp add: makeRequest_all_fail attempt_fails_def attempts_trace_def)
qed

lemma attempts_trace_Suc:
  "1 \<le> n \<Longrightarrow> attempts_trace req 0 (Suc n) = attempts_trace req 0 n @ [Delay (1000 * n), req]"
  by (simp add: attempts_trace_def)

lemma length_attempts_trace: "1 \<le> n \<Longrightarrow> length (attempts_trace req 0 n) = 2 * n - 1"
proof (induction n)
  case 0
  then show ?case by simp
next
  case (Suc n)
  show ?case
  proof (cases "n = 0")
    case True
    then show ?thesis by (simp add: attempts_trace_def)
  next
    case False
    then have n: "1 \<le> n" by simp
    show ?thesis using Suc.IH[OF n] n by (simp add: attempts_trace_Suc)
  qed
qed

lemma attempts_trace_nth:
  "1 \<le> k \<Longrightarrow> k < n \<Longrightarrow>
     attempts_trace req 0 n ! (2 * k - 1) = Delay (1000 * k) \<and> attempts_trace req 0 n ! (2 * k) = req"
proof (induction n)
  case 0
  then show ?case by simp
next
  case (Suc n)
  have n: "1 \<le> n" using Suc.prems by simp
  have len: "length (attempts_trace req 0 n) = 2 * n - 1" using n by (rule length_attempts_trace)
  show ?case
  proof (cases "k < n")
    case True
    have "2 * k - 1 < 2 * n - 1" "2 * k < 2 * n - 1" using True Suc.prems(1) by simp_all
    then show ?thesis
      using Suc.IH[OF Suc.prems(1) True] len by (simp add: attempts_trace_Suc[OF n] nth_append)
  next
    case False
    then have k: "k = n" using Suc.prems by simp
    have "2 * n - 1 - (2 * n - 1) = (0::nat)" "2 * n - (2 * n - 1) = (1::nat)"
         "\<not> 2 * n < 2 * n - 1" "\<not> 2 * n - 1 < 2 * n - 1"
      using n by simp_all
    then show ?thesis
      using len n unfolding k by (simp add: attempts_trace_Suc[OF n] nth_append)
  qed
qed

text \<open>
  C9. The events of a call of \<open>makeRequest\<close> are fixed by the backend. When every attempt
  up to number \<open>retryAttempts\<close> fails, they are those of \<open>retryAttempts + 1\<close> attempts;
  when attempt number \<open>k\<close> is the first that does not fail, they are those of \<open>k + 1\<close>
  attempts; one of the two always applies, so there are never more than
  \<open>retryAttempts + 1\<close> attempts. The events of \<open>n\<close> attempts are \<open>2 * n - 1\<close> events:
  the request, then for each \<open>k = 1, ..., n - 1\<close> a delay of \<open>1000 * k\<close> milliseconds,
  at position \<open>2 * k - 1\<close>, followed by the request again, at position \<open>2 * k\<close>.
\<close>

theorem makeRequest_linear_backoff:
  "((\<forall>j\<le>retryAttempts c. attempt_fails (srv j)) \<longrightarrow>
      snd (makeRequest c srv endpoint method data tmo) =
        attempts_trace
          (Request method (serverUrl c @ endpoint) (if method = POST then data else None) tmo)
          0 (retryAttempts c + 1))
   \<and> (\<forall>k. k \<le> retryAttempts c \<and> (\<forall>j<k. attempt_fails (srv j)) \<and> \<not> attempt_fails (srv k) \<longrightarrow>
        snd (makeRequest c srv endpoint method data tmo) =
          attempts_trace
            (Request method (serverUrl c @ endpoint) (if method = POST then data else None) tmo)
            0 (k + 1))
   \<and> ((\<forall>j\<le>retryAttempts c. attempt_fails (srv j)) \<or>
      (\<exists>k\<le>retryAttempts c. (\<forall>j<k. attempt_fails (srv j)) \<and> \<not> attempt_fails (srv k)))
   \<and> (\<forall>req n. 1 \<le> n \<longrightarrow> length (attempts_trace req 0 n) = 2 * n - 1 \<and> attempts_trace req 0 n ! 0 = req)
   \<and> (\<forall>req n k. 1 \<le> k \<and> k < n \<longrightarrow>
        attempts_trace req 0 n ! (2 * k - 1) = Delay (1000 * k) \<and> attempts_trace req 0 n ! (2 * k) = req)"
proof (intro conjI impI allI)
  assume "\<forall>j\<le>retryAttempts c. attempt_fails (srv j)"
  then show "snd (makeRequest c srv endpoint method data tmo) =
        attempts_trace
          (Request method (serverUrl c @ endpoint) (if method = POST then data else None) tmo)
          0 (retryAttempts c + 1)"
    by (simp add: makeRequest_all_fail)
next
  fix k
  assume h: "k \<le> retryAttempts c \<and> (\<forall>j<k. attempt_fails (srv j)) \<and> \<not> attempt_fails (srv k)"
  then obtain status err b where "srv k = Responded status err b" "status < 400"
    using not_fails_Responded by blast
  then have "try_attempt (srv k) = Inr b" by (simp add: try_attempt_ok)
  then show "snd (makeRequest c srv endpoint method data tmo) =
          attempts_trace
            (Request method (serverUrl c @ endpoint) (if method = POST then data else None) tmo)
            0 (k + 1)"
    using h makeRequest_first_success[of k c srv b endpoint "method" "data" tmo] by simp
next
  show "(\<forall>j\<le>retryAttempts c. attempt_fails (srv j)) \<or>
      (\<exists>k\<le>retryAttempts c. (\<forall>j<k. attempt_fails (srv j)) \<and> \<not> attempt_fails (srv k))"
    by (rule first_success_or_all_fail)
next
  fix req :: event and n :: nat
  assume "1 \<le> n"
  then show "length (attempts_trace req 0 n) = 2 * n - 1" by (rule length_attempts_trace)
next
  fix req :: event and n :: nat
  show "attempts_trace req 0 n ! 0 = req" by (simp add: attempts_trace_def)
next
  fix req :: event and n k :: nat
  assume "1 \<le> k \<and> k < n"
  then show "attempts_trace req 0 n ! (2 * k - 1) = Delay (1000 * k)"
    using attempts_trace_nth[of k n req] by simp
next
  fix req :: event and n k :: nat
  assume "1 \<le> k \<and> k < n"
  then show "attempts_trace req 0 n ! (2 * k) = req"
    using attempts_trace_nth[of k n req] by simp
qed

theorem makeRequest_linear_backoff_witness:
  "snd (makeRequest (new_client []) (\<lambda>k. (TimedOut :: chat_body outcome)) ''/chat'' POST
          (Some (ChatData ''hi'' [])) 30000)
   = [Request POST ''http://localhost:5000/chat'' (Some (ChatData ''hi'' [])) 30000,
      Delay 1000,
      Request POST ''http://localhost:5000/chat'' (Some (ChatData ''hi'' [])) 30000,
      Delay 2000,
      Request POST ''http://localhost:5000/chat'' (Some (ChatData ''hi'' [])) 30000]
   \<and> snd (makeRequest (new_client [])
            (\<lambda>k. if k = 0 then NetworkUnreachable
                 else Responded 200 None (Some \<lparr> chat_success = True, reply = Some ''Hello'' \<rparr>))
            ''/chat'' POST (Some (ChatData ''hi'' [])) 30000)
   = [Request POST ''http://localhost:5000/chat'' (Some (ChatData ''hi'' [])) 30000,
      Delay 1000,
      Request POST ''http://localhost:5000/chat'' (Some (ChatData ''hi'' [])) 30000]"
proof -
  have u: "[Suc 0 ..< 3] = [1, 2::nat]" "[Suc 0 ..< 2] = [1::nat]"
    by (simp_all add: upt_conv_Cons)
  have a: "snd (makeRequest (new_client []) (\<lambda>k. (TimedOut :: chat_body outcome)) ''/chat'' POST
          (Some (ChatData ''hi'' [])) 30000)
   = [Request POST ''http://localhost:5000/chat'' (Some (ChatData ''hi'' [])) 30000,
      Delay 1000,
      Request POST ''http://localhost:5000/chat'' (Some (ChatData ''hi'' [])) 30000,
      Delay 2000,
      Request POST ''http://localhost:5000/chat'' (Some (ChatData ''hi'' [])) 30000]"
    using makeRequest_linear_backoff[THEN conjunct1, rule_format,
            where c = "new_client []" and srv = "\<lambda>k. (TimedOut :: chat_body outcome)"
              and endpoint = "''/chat''" and tmo = 30000,
            of POST "Some (ChatData ''hi'' [])"]
    by (simp add: new_client_def or_default_def attempt_fails_def attempts_trace_def u)
  have b: "snd (makeRequest (new_client [])
            (\<lambda>k. if k = 0 then NetworkUnreachable
                 else Responded 200 None (Some \<lparr> chat_success = True, reply = Some ''Hello'' \<rparr>))
            ''/chat'' POST (Some (ChatData ''hi'' [])) 30000)
   = [Request POST ''http://localhost:5000/chat'' (Some (ChatData ''hi'' [])) 30000,
      Delay 1000,
      Request POST ''http://localhost:5000/chat'' (Some (ChatData ''hi'' [])) 30000]"
    using makeRequest_linear_backoff[THEN conjunct2, THEN conjunct1, rule_format,
            where k = 1 and c = "new_client []"
              and srv = "\<lambda>k. if k = 0 then NetworkUnreachable
                    else Responded 200 None (Some \<lparr> chat_success = True, reply = Some ''Hello'' \<rparr>)"
              and endpoint = "''/chat''" and tmo = 30000,
            of POST "Some (ChatData ''hi'' [])"]
    by (simp add: new_client_def or_default_def attempt_fails_def attempts_trace_def u)
  show ?thesis using a b by blast
qed

text \<open>
  C10. \<open>chat\<close> always returns a text. When every attempt fails, the text is fixed by what
  the last attempt met: the internal-error text for status 500, the cannot-reach text
  when there was no response, the unexpected-error text for any other failing status.
  When an attempt gets through, the text is the backend's reply, or a fixed text when
  the reply is missing, the body says it did not succeed, or the body is \<open>null\<close>.
\<close>

theorem chat_always_answers:
  "((\<forall>j\<le>retryAttempts c. attempt_fails (srv j)) \<longrightarrow>
      fst (chat c srv msg context) =
        (case srv (retryAttempts c) of
           Responded status err b \<Rightarrow>
             if status = 500
             then ''I encountered an internal error. The backend AI service may be experiencing issues. Please try again in a moment.''
             else ''I apologize, but I encountered an unexpected error. Please check the backend logs and try again.''
         | NetworkUnreachable \<Rightarrow>
             ''I cannot reach the backend server. Please ensure it is running and try again.''
         | TimedOut \<Rightarrow>
             ''I cannot reach the backend server. Please ensure it is running and try again.''))
   \<and> (\<forall>k status err b.
         k \<le> retryAttempts c \<and> (\<forall>j<k. attempt_fails (srv j)) \<and>
         srv k = Responded status err b \<and> status < 400 \<longrightarrow>
         fst (chat c srv msg context) =
           (case b of
              None \<Rightarrow> ''I apologize, but I encountered an unexpected error. Please check the backend logs and try again.''
            | Some response \<Rightarrow>
                if chat_success response then or_else (reply response) ''No response from AI''
                else ''I apologize, but I encountered an error. Please try again.''))
   \<and> ((\<forall>j\<le>retryAttempts c. attempt_fails (srv j)) \<or>
      (\<exists>k status err b. k \<le> retryAttempts c \<and> (\<forall>j<k. attempt_fails (srv j)) \<and>
         srv k = Responded status err b \<and> status < 400))"
proof (intro conjI impI allI)
  assume all: "\<forall>j\<le>retryAttempts c. attempt_fails (srv j)"
  then have last: "attempt_fails (srv (retryAttempts c))" by simp
  show "fst (chat c srv msg context) =
        (case srv (retryAttempts c) of
           Responded status err b \<Rightarrow>
             if status = 500
             then ''I encountered an internal error. The backend AI service may be experiencing issues. Please try again in a moment.''
             else ''I apologize, but I encountered an unexpected error. Please check the backend logs and try again.''
         | NetworkUnreachable \<Rightarrow>
             ''I cannot reach the backend server. Please ensure it is running and try again.''
         | TimedOut \<Rightarrow>
             ''I cannot reach the backend server. Please ensure it is running and try again.'')"
    using last
    by (cases "srv (retryAttempts c)")
       (auto simp: chat_def makeRequest_all_fail[OF all] try_attempt_def axios_def
                   validateStatus_def handleChatError_def attempt_fails_def)
next
  fix k status err b
  assume h: "k \<le> retryAttempts c \<and> (\<forall>j<k. attempt_fails (srv j)) \<and>
             srv k = Responded status err b \<and> status < 400"
  then have t: "try_attempt (srv k) = Inr b" by (simp add: try_attempt_ok)
  show "fst (chat c srv msg context) =
           (case b of
              None \<Rightarrow> ''I apologize, but I encountered an unexpected error. Please check the backend logs and try again.''
            | Some response \<Rightarrow>
                if chat_success response then or_else (reply response) ''No response from AI''
                else ''I apologize, but I encountered an error. Please try again.'')"
    using h makeRequest_first_success[of k c srv b "''/chat''" POST "Some (ChatData msg context)" 30000] t
    by (cases b) (simp_all add: chat_def handleChatError_def null_read_def)
next
  show "(\<forall>j\<le>retryAttempts c. attempt_fails (srv j)) \<or>
      (\<exists>k status err b. k \<le> retryAttempts c \<and> (\<forall>j<k. attempt_fails (srv j)) \<and>
         srv k = Responded status err b \<and> status < 400)"
    using first_success_or_all_fail[of "retryAttempts c" srv] not_fails_Responded by blast
qed

theorem chat_always_answers_witness:
  "fst (chat (new_client []) (\<lambda>k. Responded 500 None None) ''hi'' [])
       = ''I encountered an internal error. The backend AI service may be experiencing issues. Please try again in a moment.''
   \<and> fst (chat (new_client [])
             (\<lambda>k. if k = 0 then NetworkUnreachable
                  else Responded 200 None (Some \<lparr> chat_success = True, reply = Some ''Hello'' \<rparr>))
             ''hi'' [])
       = ''Hello''"
proof -
  have a: "\<forall>j\<le>retryAttempts (new_client []). attempt_fails (Responded 500 None (None :: chat_body option))"
    by (simp add: attempt_fails_def)
  have b: "fst (chat (new_client []) (\<lambda>k. Responded 500 None None) ''hi'' [])
       = ''I encountered an internal error. The backend AI service may be experiencing issues. Please try again in a moment.''"
    using chat_always_answers[THEN conjunct1, rule_format,
            of "new_client []" "\<lambda>k. Responded 500 None None" "''hi''" "[]"] a
    by simp
  have c: "1 \<le> retryAttempts (new_client []) \<and>
      (\<forall>j<(1::nat). attempt_fails
                (if j = 0 then NetworkUnreachable
                 else Responded 200 None (Some \<lparr> chat_success = True, reply = Some ''Hello'' \<rparr>))) \<and>
      (200::nat) < 400"
    by (simp add: new_client_def attempt_fails_def)
  have d: "fst (chat (new_client [])
             (\<lambda>k. if k = 0 then NetworkUnreachable
                  else Responded 200 None (Some \<lparr> chat_success = True, reply = Some ''Hello'' \<rparr>))
             ''hi'' [])
       = ''Hello''"
    using chat_always_answers[THEN conjunct2, THEN conjunct1, rule_format,
            of 1 "new_client []"
               "\<lambda>k. if k = 0 then NetworkUnreachable
                    else Responded 200 None (Some \<lparr> chat_success = True, reply = Some ''Hello'' \<rparr>)"
               200 None "Some \<lparr> chat_success = True, reply = Some ''Hello'' \<rparr>" "''hi''" "[]"] c
    by (simp add: or_else_def or_default_def)
  show ?thesis using b d by blast
qed

text \<open>
  C7. \<open>fixCode\<close> returns the code it was given whenever the fix fails: when every attempt
  of the request fails, and when the attempt that gets through brings a \<open>null\<close> body, a
  body that says it did not succeed, or a body without fixed code. Otherwise it returns
  the fixed code of the body. One of the two cases always applies.
\<close>

theorem fixCode_returns_original_on_failure:
  "((\<forall>j\<le>retryAttempts c. attempt_fails (srv j)) \<longrightarrow>
      fst (fixCode c srv code err issue_list filename) = code)
   \<and> (\<forall>k status e b.
         k \<le> retryAttempts c \<and> (\<forall>j<k. attempt_fails (srv j)) \<and>
         srv k = Responded status e b \<and> status < 400 \<longrightarrow>
         fst (fixCode c srv code err issue_list filename) =
           (case b of
              None \<Rightarrow> code
            | Some response \<Rightarrow>
                if fix_success response \<and> or_else (fixed_code response) [] \<noteq> []
                then or_else (fixed_code response) [] else code))
   \<and> ((\<forall>j\<le>retryAttempts c. attempt_fails (srv j)) \<or>
      (\<exists>k status e b. k \<le> retryAttempts c \<and> (\<forall>j<k. attempt_fails (srv j)) \<and>
         srv k = Responded status e b \<and> status < 400))"
proof (intro conjI impI allI)
  assume all: "\<forall>j\<le>retryAttempts c. attempt_fails (srv j)"
  then have "attempt_fails (srv (retryAttempts c))" by simp
  then obtain x where "try_attempt (srv (retryAttempts c)) = Inl x"
    by (auto simp: try_attempt_fails_iff)
  then show "fst (fixCode c srv code err issue_list filename) = code"
    by (simp add: fixCode_def makeRequest_all_fail[OF all])
next
  fix k status e b
  assume h: "k \<le> retryAttempts c \<and> (\<forall>j<k. attempt_fails (srv j)) \<and>
             srv k = Responded status e b \<and> status < 400"
  then have t: "try_attempt (srv k) = Inr b" by (simp add: try_attempt_ok)
  show "fst (fixCode c srv code err issue_list filename) =
           (case b of
              None \<Rightarrow> code
            | Some response \<Rightarrow>
                if fix_success response \<and> or_else (fixed_code response) [] \<noteq> []
                then or_else (fixed_code response) [] else code)"
    using h makeRequest_first_success[of k c srv b "''/fix''" POST
                "Some (FixData code err issue_list filename)" "timeout c"] t
    by (cases b) (simp_all add: fixCode_def)
next
  show "(\<forall>j\<le>retryAttempts c. attempt_fails (srv j)) \<or>
      (\<exists>k status e b. k \<le> retryAttempts c \<and> (\<forall>j<k. attempt_fails (srv j)) \<and>
         srv k = Responded status e b \<and> status < 400)"
    using first_success_or_all_fail[of "retryAttempts c" srv] not_fails_Responded by blast
qed

theorem fixCode_returns_original_on_failure_witness:
  "fst (fixCode (new_client []) (\<lambda>k. TimedOut) ''x = 1'' ''R1: bad name'' [] ''a.py'') = ''x = 1''
   \<and> fst (fixCode (new_client [])
             (\<lambda>k. Responded 200 None (Some \<lparr> fix_success = True, fixed_code = None \<rparr>))
             ''x = 1'' ''R1: bad name'' [] ''a.py'') = ''x = 1''"
proof -
  have a: "\<forall>j\<le>retryAttempts (new_client []). attempt_fails (TimedOut :: fix_body outcome)"
    by (simp add: attempt_fails_def)
  have b: "fst (fixCode (new_client []) (\<lambda>k. TimedOut) ''x = 1'' ''R1: bad name'' [] ''a.py'') = ''x = 1''"
    using fixCode_returns_original_on_failure[THEN conjunct1, rule_format,
            of "new_client []" "\<lambda>k. TimedOut" "''x = 1''" "''R1: bad name''" "[]" "''a.py''"] a
    by simp
  have c: "0 \<le> retryAttempts (new_client []) \<and>
      (\<forall>j<(0::nat). attempt_fails (Responded 200 None (Some \<lparr> fix_success = True, fixed_code = None \<rparr>))) \<and>
      (200::nat) < 400"
    by simp
  have d: "fst (fixCode (new_client [])
             (\<lambda>k. Responded 200 None (Some \<lparr> fix_success = True, fixed_code = None \<rparr>))
             ''x = 1'' ''R1: bad name'' [] ''a.py'') = ''x = 1''"
    using fixCode_returns_original_on_failure[THEN conjunct2, THEN conjunct1, rule_format,
            of 0 "new_client []"
               "\<lambda>k. Responded 200 None (Some \<lparr> fix_success = True, fixed_code = None \<rparr>)"
               200 None "Some \<lparr> fix_success = True, fixed_code = None \<rparr>"
               "''x = 1''" "''R1: bad name''" "[]" "''a.py''"] c
    by (simp add: or_else_def)
  show ?thesis using b d by blast
qed

section \<open>The analysis history\<close>

lemma take_Cons_take: "take n (x # take n ys) = take n (x # ys)"
  by (cases n) simp_all

lemma analysisHistory_save:
  "analysisHistory (save_to_history entry st) = take 50 (entry # analysisHistory st)"
  by (simp add: save_to_history_def Let_def)

lemma globalState_save:
  "globalState (save_to_history entry st) = analysisHistory (save_to_history entry st)"
  by (simp add: save_to_history_def Let_def)

lemma save_all_snoc: "save_all (entries @ [entry]) st = save_to_history entry (save_all entries st)"
  by (simp add: save_all_def)

lemma analysisHistory_save_all:
  "analysisHistory (save_all entries st) =
     (if entries = [] then analysisHistory st else take 50 (rev entries @ analysisHistory st))"
proof (induction entries rule: rev_induct)
  case Nil
  show ?case by (simp add: save_all_def)
next
  case (snoc entry entries)
  have "analysisHistory (save_all (entries @ [entry]) st)
          = take 50 (entry # analysisHistory (save_all entries st))"
    by (simp only: save_all_snoc analysisHistory_save)
  also have "\<dots> = take 50 (entry # rev entries @ analysisHistory st)"
  proof (cases "entries = []")
    case True
    then show ?thesis using snoc.IH by simp
  next
    case False
    then have "analysisHistory (save_all entries st) = take 50 (rev entries @ analysisHistory st)"
      using snoc.IH by simp
    then show ?thesis by (simp only: take_Cons_take)
  qed
  finally show ?case by simp
qed

lemma globalState_save_all:
  "entries \<noteq> [] \<Longrightarrow> globalState (save_all entries st) = analysisHistory (save_all entries st)"
  by (cases entries rule: rev_cases) (simp_all add: save_all_snoc globalState_save)

text \<open>
  C4. Whatever the history was, after 55 saves it is the last 50 saved entries in reverse
  order of saving: exactly 50 entries, most recent first, the 5 oldest gone along with
  everything the history held before. From the empty history, any sequence of saves
  leaves the 50 most recent entries, most recent first. One save or more leaves at most
  50 entries, and a history of at most 50 entries never grows beyond 50. The stored copy
  is the same list.
\<close>

theorem history_capacity:
  "(length entries = 55 \<longrightarrow>
        analysisHistory (save_all entries st) = rev (drop 5 entries)
        \<and> length (analysisHistory (save_all entries st)) = 50)
   \<and> analysisHistory (save_all entries empty_store) = take 50 (rev entries)
   \<and> (entries \<noteq> [] \<longrightarrow> length (analysisHistory (save_all entries st)) \<le> 50)
   \<and> (length (analysisHistory st) \<le> 50 \<longrightarrow> length (analysisHistory (save_all entries st)) \<le> 50)
   \<and> (entries \<noteq> [] \<longrightarrow>
        analysisHistory (loadAnalysisHistory (save_all entries st)) = analysisHistory (save_all entries st))"
proof (intro conjI impI)
  assume len: "length entries = 55"
  then have ne: "entries \<noteq> []" by auto
  have "take 50 (rev entries @ analysisHistory st) = take 50 (rev entries)"
    using len by simp
  also have "\<dots> = rev (drop 5 entries)"
    using len by (simp add: take_rev)
  finally show eq: "analysisHistory (save_all entries st) = rev (drop 5 entries)"
    using ne by (simp only: analysisHistory_save_all if_False)
  show "length (analysisHistory (save_all entries st)) = 50"
    unfolding eq using len by simp
next
  show "analysisHistory (save_all entries empty_store) = take 50 (rev entries)"
    by (simp add: analysisHistory_save_all empty_store_def)
next
  assume "entries \<noteq> []"
  then show "length (analysisHistory (save_all entries st)) \<le> 50"
    by (simp only: analysisHistory_save_all if_False length_take min.cobounded2)
next
  assume small: "length (analysisHistory st) \<le> 50"
  show "length (analysisHistory (save_all entries st)) \<le> 50"
  proof (cases "entries = []")
    case True
    then show ?thesis using small by (simp add: save_all_def)
  next
    case False
    then show ?thesis by (simp only: analysisHistory_save_all if_False length_take min.cobounded2)
  qed
next
  assume "entries \<noteq> []"
  then show "analysisHistory (loadAnalysisHistory (save_all entries st))
               = analysisHistory (save_all entries st)"
    by (simp add: loadAnalysisHistory_def globalState_save_all)
qed

theorem history_capacity_witness:
  "analysisHistory
     (save_all
        (map (\<lambda>n. \<lparr> timestamp = string_of_nat n, fileName = ''a.py'', filePath = ''/w/a.py'',
                     score = 90, grade = ''A'', issueCount = 0, fileType = ''py'' \<rparr>) [0 ..< 55])
        empty_store)
   = rev (drop 5
        (map (\<lambda>n. \<lparr> timestamp = string_of_nat n, fileName = ''a.py'', filePath = ''/w/a.py'',
                     score = 90, grade = ''A'', issueCount = 0, fileType = ''py'' \<rparr>) [0 ..< 55]))
   \<and> length (analysisHistory
        (save_all
           (map (\<lambda>n. \<lparr> timestamp = string_of_nat n, fileName = ''a.py'', filePath = ''/w/a.py'',
                        score = 90, grade = ''A'', issueCount = 0, fileType = ''py'' \<rparr>) [0 ..< 55])
           empty_store)) = 50"
  using history_capacity[THEN conjunct1, rule_format,
          of "map (\<lambda>n. \<lparr> timestamp = string_of_nat n, fileName = ''a.py'', filePath = ''/w/a.py'',
                     score = 90, grade = ''A'', issueCount = 0, fileType = ''py'' \<rparr>) [0 ..< 55]"
             empty_store]
  by simp

section \<open>Diagnostics\<close>

lemma spacing_small: "n < 9007199254740992 \<Longrightarrow> spacing n = 1"
  by (subst spacing.simps) simp

lemma nearest_double_small: "n < 9007199254740992 \<Longrightarrow> nearest_double n = n"
  by (simp add: nearest_double_def spacing_small)

lemma nearest_double_2_53: "nearest_double 9007199254740992 = 9007199254740992"
  by (simp add: nearest_double_def spacing.simps[of 9007199254740992] spacing_small)

lemma to_double_exact: "\<bar>x\<bar> \<le> 9007199254740992 \<Longrightarrow> to_double x = x"
proof -
  assume a: "\<bar>x\<bar> \<le> 9007199254740992"
  show ?thesis
  proof (cases "\<bar>x\<bar> = 9007199254740992")
    case True
    then show ?thesis by (auto simp: to_double_def nearest_double_2_53 abs_if split: if_splits)
  next
    case False
    then have "nat \<bar>x\<bar> < 9007199254740992" using a by simp
    then show ?thesis
      by (cases "x < 0") (simp_all add: to_double_def nearest_double_small abs_if)
  qed
qed

lemma to_double_neg: "x < 0 \<Longrightarrow> to_double x \<le> 0"
  by (simp add: to_double_def)

text \<open>Above \<open>2 ^ 53\<close> the subtraction rounds: line 9007199254740994 gives 9007199254740992.\<close>

lemma diagnostic_line_rounds:
  "diagnostic_line \<lparr> rule = ''R1'', message = ''m'', line = Some 9007199254740994,
                     severity = ''warning'', fix_hint = None, category = None \<rparr>
   = 9007199254740992"
  by (simp add: diagnostic_line_def to_double_def nearest_double_def
                spacing.simps[of 9007199254740994] spacing.simps[of 9007199254740993]
                spacing_small)

lemma diagnostic_line_nonneg: "0 \<le> diagnostic_line issue"
  by (simp add: diagnostic_line_def)

lemma diagnostic_line_exact:
  "line issue = Some l \<Longrightarrow> 1 \<le> l \<Longrightarrow> l \<le> 9007199254740992 \<Longrightarrow> diagnostic_line issue = l - 1"
proof -
  assume h: "line issue = Some l" "1 \<le> l" "l \<le> 9007199254740992"
  have a: "to_double l = l" using h by (intro to_double_exact) simp
  have b: "to_double (l - 1) = l - 1" using h by (intro to_double_exact) simp
  show ?thesis using h a b by (simp add: diagnostic_line_def)
qed

lemma diagnostic_line_low:
  "line issue = None \<or> (line issue = Some l \<and> l \<le> 1) \<Longrightarrow> diagnostic_line issue = 0"
proof (cases "line issue")
  case None
  then show ?thesis by (simp add: diagnostic_line_def to_double_exact)
next
  case (Some l')
  assume "line issue = None \<or> (line issue = Some l \<and> l \<le> 1)"
  then have l: "l' \<le> 1" using Some by simp
  show ?thesis
  proof (cases "to_double l' = 0")
    case True
    then show ?thesis using Some by (simp add: diagnostic_line_def to_double_exact)
  next
    case False
    show ?thesis
    proof (cases "l' < 0")
      case True
      then have "to_double l' < 0" using to_double_neg[of l'] False by simp
      then have "to_double (to_double l' - 1) \<le> 0" by (intro to_double_neg) simp
      then show ?thesis using Some False by (simp add: diagnostic_line_def)
    next
      case F: False
      then have "l' = 0 \<or> l' = 1" using l by auto
      then show ?thesis using Some by (auto simp: diagnostic_line_def to_double_exact)
    qed
  qed
qed

lemma diagnostic_of_line:
  "\<exists>d. diagnostic_of document issue = Inr d \<and> start_line (diag_range d) = diagnostic_line issue"
  using diagnostic_line_nonneg[of issue]
  by (simp add: diagnostic_of_def new_Range_def MAX_SAFE_INTEGER_def Let_def)

lemma diagnostics_of_lines:
  "\<exists>ds. diagnostics_of document issue_list = Inr ds \<and>
        map (\<lambda>d. start_line (diag_range d)) ds = map diagnostic_line issue_list"
proof (induction issue_list)
  case Nil
  show ?case by simp
next
  case (Cons issue rest)
  obtain d where d: "diagnostic_of document issue = Inr d"
      "start_line (diag_range d) = diagnostic_line issue"
    using diagnostic_of_line by blast
  from Cons obtain ds where ds: "diagnostics_of document rest = Inr ds"
      "map (\<lambda>d. start_line (diag_range d)) ds = map diagnostic_line rest"
    by blast
  show ?case using d ds by simp
qed

text \<open>
  C2, as the code has it. For findings whose lines are read as finite doubles,
  \<open>showDiagnostics\<close> never fails and leaves one diagnostic per issue, in order, at the
  0-based line \<open>max 0 ((line || 1) - 1)\<close>: no finding is dropped and no line is negative.
  A 1-based line \<open>l\<close> from 1 to \<open>2 ^ 53\<close> becomes \<open>l - 1\<close>; a missing line and any line
  below 1 become the first line. Hence such a line from 1 to the document's line count
  stays a line of the document, and a line below 1 becomes one when the document has a
  line. The line count is never read: a line above it is not brought back.
\<close>

theorem showDiagnostics_lines:
  "((\<forall>issue\<in>set issue_list. finite_line issue) \<longrightarrow>
      diagnostic_lines document issue_list coll = Some (map diagnostic_line issue_list))
   \<and> (\<forall>issue. 0 \<le> diagnostic_line issue)
   \<and> (\<forall>issue l. line issue = Some l \<and> 1 \<le> l \<and> l \<le> 9007199254740992
         \<longrightarrow> diagnostic_line issue = l - 1)
   \<and> (\<forall>issue l. line issue = None \<or> (line issue = Some l \<and> l \<le> 1) \<longrightarrow> diagnostic_line issue = 0)
   \<and> (\<forall>issue l. line issue = Some l \<and> 1 \<le> l \<and> l \<le> int (lineCount document)
                  \<and> l \<le> 9007199254740992
         \<longrightarrow> line_in_document document (diagnostic_line issue))
   \<and> (\<forall>issue l. (line issue = None \<or> (line issue = Some l \<and> l \<le> 1)) \<and> 0 < lineCount document
         \<longrightarrow> line_in_document document (diagnostic_line issue))"
proof (intro conjI allI impI)
  obtain ds where ds: "diagnostics_of document issue_list = Inr ds"
      "map (\<lambda>d. start_line (diag_range d)) ds = map diagnostic_line issue_list"
    using diagnostics_of_lines by blast
  then show "diagnostic_lines document issue_list coll = Some (map diagnostic_line issue_list)"
    by (simp add: diagnostic_lines_def showDiagnostics_def)
next
  fix issue :: Issue
  show "0 \<le> diagnostic_line issue" by (rule diagnostic_line_nonneg)
next
  fix issue :: Issue and l :: int
  assume "line issue = Some l \<and> 1 \<le> l \<and> l \<le> 9007199254740992"
  then show "diagnostic_line issue = l - 1" by (simp add: diagnostic_line_exact)
next
  fix issue :: Issue and l :: int
  assume "line issue = None \<or> (line issue = Some l \<and> l \<le> 1)"
  then show "diagnostic_line issue = 0" by (rule diagnostic_line_low)
next
  fix issue :: Issue and l :: int
  assume h: "line issue = Some l \<and> 1 \<le> l \<and> l \<le> int (lineCount document)
               \<and> l \<le> 9007199254740992"
  then have "diagnostic_line issue = l - 1" by (simp add: diagnostic_line_exact)
  then show "line_in_document document (diagnostic_line issue)"
    using h by (simp add: line_in_document_def)
next
  fix issue :: Issue and l :: int
  assume h: "(line issue = None \<or> (line issue = Some l \<and> l \<le> 1)) \<and> 0 < lineCount document"
  then have "diagnostic_line issue = 0" using diagnostic_line_low[of issue l] by blast
  then show "line_in_document document (diagnostic_line issue)"
    using h by (simp add: line_in_document_def)
qed

theorem showDiagnostics_lines_witness:
  "diagnostic_lines \<lparr> uri = ''a.py'', lineCount = 10 \<rparr>
     [\<lparr> rule = ''R1'', message = ''m'', line = Some 3, severity = ''warning'',
        fix_hint = None, category = None \<rparr>,
      \<lparr> rule = ''R2'', message = ''n'', line = Some 0, severity = ''error'',
        fix_hint = None, category = None \<rparr>] Map.empty = Some [2, 0]
   \<and> line_in_document \<lparr> uri = ''a.py'', lineCount = 10 \<rparr>
        (diagnostic_line \<lparr> rule = ''R1'', message = ''m'', line = Some 3, severity = ''warning'',
                           fix_hint = None, category = None \<rparr>)
   \<and> line_in_document \<lparr> uri = ''a.py'', lineCount = 10 \<rparr>
        (diagnostic_line \<lparr> rule = ''R2'', message = ''n'', line = Some 0, severity = ''error'',
                           fix_hint = None, category = None \<rparr>)"
proof -
  let ?doc = "\<lparr> uri = ''a.py'', lineCount = 10 \<rparr>"
  let ?i3 = "\<lparr> rule = ''R1'', message = ''m'', line = Some 3, severity = ''warning'',
               fix_hint = None, category = None \<rparr>"
  let ?i0 = "\<lparr> rule = ''R2'', message = ''n'', line = Some 0, severity = ''error'',
               fix_hint = None, category = None \<rparr>"
  note t = showDiagnostics_lines[of "[?i3, ?i0]" ?doc Map.empty]
  have fin: "\<forall>issue\<in>set [?i3, ?i0]. finite_line issue"
    by (simp add: finite_line_def double_max_def)
  have a3: "diagnostic_line ?i3 = 2"
    using t[THEN conjunct2, THEN conjunct2, THEN conjunct1, rule_format, of ?i3 3] by simp
  have a0: "diagnostic_line ?i0 = 0"
    using t[THEN conjunct2, THEN conjunct2, THEN conjunct2, THEN conjunct1, rule_format, of ?i0 0]
    by simp
  have a: "diagnostic_lines ?doc [?i3, ?i0] Map.empty = Some [2, 0]"
    using t[THEN conjunct1, rule_format] fin a3 a0 by simp
  have c: "line_in_document ?doc (diagnostic_line ?i3)"
    using t[THEN conjunct2, THEN conjunct2, THEN conjunct2, THEN conjunct2, THEN conjunct1,
            rule_format, of ?i3 3]
    by simp
  have d: "line_in_document ?doc (diagnostic_line ?i0)"
    using t[THEN conjunct2, THEN conjunct2, THEN conjunct2, THEN conjunct2, THEN conjunct2,
            rule_format, of ?i0 0]
    by simp
  show ?thesis using a c d by blast
qed

text \<open>
  C2, as stated, fails above the line count: in a document of 10 lines, a finding at line
  50 gets the 0-based line 49, which is not a line of the document.
\<close>

theorem showDiagnostics_line_beyond_document:
  "diagnostic_lines \<lparr> uri = ''a.py'', lineCount = 10 \<rparr>
     [\<lparr> rule = ''R1'', message = ''m'', line = Some 50, severity = ''warning'',
        fix_hint = None, category = None \<rparr>] Map.empty = Some [49]
   \<and> \<not> line_in_document \<lparr> uri = ''a.py'', lineCount = 10 \<rparr> 49"
proof -
  have "diagnostic_line \<lparr> rule = ''R1'', message = ''m'', line = Some 50, severity = ''warning'',
                           fix_hint = None, category = None \<rparr> = 49"
    using diagnostic_line_exact[of _ 50] by simp
  then show ?thesis
    by (simp add: diagnostic_lines_def showDiagnostics_def diagnostic_of_def new_Range_def
                  MAX_SAFE_INTEGER_def line_in_document_def Let_def)
qed

section \<open>Fixing, then analysing again\<close>

lemma attempts_trace_events:
  "e \<in> set (attempts_trace req first n) \<Longrightarrow> e = req \<or> (\<exists>ms. e = Delay ms)"
  by (auto simp: attempts_trace_def)

lemma makeRequest_events:
  "e \<in> set (snd (makeRequest c srv endpoint method data tmo)) \<Longrightarrow>
     e = Request method (serverUrl c @ endpoint) (if method = POST then data else None) tmo
     \<or> (\<exists>ms. e = Delay ms)"
proof -
  assume e: "e \<in> set (snd (makeRequest c srv endpoint method data tmo))"
  obtain n where "snd (makeRequest c srv endpoint method data tmo) =
      attempts_trace (Request method (serverUrl c @ endpoint) (if method = POST then data else None) tmo) 0 n"
    unfolding makeRequest_def using loop_trace[of 0 "retryAttempts c" srv _ Undefined] by auto
  then show ?thesis using e attempts_trace_events by metis
qed

lemma makeRequest_sends:
  "Request method (serverUrl c @ endpoint) (if method = POST then data else None) tmo
     \<in> set (snd (makeRequest c srv endpoint method data tmo))"
proof -
  obtain n where "snd (makeRequest c srv endpoint method data tmo) =
      attempts_trace (Request method (serverUrl c @ endpoint) (if method = POST then data else None) tmo) 0 n"
    unfolding makeRequest_def using loop_trace[of 0 "retryAttempts c" srv _ Undefined] by auto
  then show ?thesis by (simp add: attempts_trace_def)
qed

lemma analyzeCode_events_eq:
  "snd (analyzeCode c srv src name) =
     snd (makeRequest c srv ''/analyze'' POST (Some (AnalyzeData src name)) (timeout c))"
  by (simp add: analyzeCode_def split: prod.splits sum.splits option.splits)

lemma analyzeCode_events:
  "e \<in> set (snd (analyzeCode c srv src name)) \<Longrightarrow>
     \<not> is_fix_request e \<and> (is_analyze_request e \<longrightarrow> analyzed_code e = Some src)"
  unfolding analyzeCode_events_eq
  by (drule makeRequest_events)
     (auto simp: is_fix_request_def is_analyze_request_def analyzed_code_def)

lemma analyzeCode_sends: "\<exists>e\<in>set (snd (analyzeCode c srv src name)). is_analyze_request e"
  unfolding analyzeCode_events_eq
  using makeRequest_sends[of POST c "''/analyze''" "Some (AnalyzeData src name)" "timeout c" srv]
  by (auto simp: is_analyze_request_def intro!: bexI)

lemma fixCode_events_cases:
  "snd (fixCode c srv src err issue_list name) =
     snd (makeRequest c srv ''/fix'' POST (Some (FixData src err issue_list name)) (timeout c))
   \<or> snd (fixCode c srv src err issue_list name) =
     snd (makeRequest c srv ''/fix'' POST (Some (FixData src err issue_list name)) (timeout c))
       @ [ShowWarningMessage ''Code fixing failed. Returning original code.'']"
  by (simp add: fixCode_def split: prod.splits sum.splits option.splits)

lemma fixCode_events:
  "e \<in> set (snd (fixCode c srv src err issue_list name)) \<Longrightarrow> \<not> is_analyze_request e"
  using fixCode_events_cases[of c srv src err issue_list name]
        makeRequest_events[of e c srv "''/fix''" POST "Some (FixData src err issue_list name)" "timeout c"]
  by (auto simp: is_analyze_request_def)

lemma fixCode_sends: "\<exists>e\<in>set (snd (fixCode c srv src err issue_list name)). is_fix_request e"
proof -
  have "is_fix_request (Request POST (serverUrl c @ ''/fix'')
                          (Some (FixData src err issue_list name)) (timeout c))"
    by (simp add: is_fix_request_def)
  then show ?thesis
    using fixCode_events_cases[of c srv src err issue_list name]
          makeRequest_sends[of POST c "''/fix''" "Some (FixData src err issue_list name)" "timeout c" srv]
    by (auto intro!: bexI)
qed

lemma post_events: "e \<in> set (post cb m) \<Longrightarrow> \<not> is_fix_request e \<and> \<not> is_analyze_request e"
  by (auto simp: post_def is_fix_request_def is_analyze_request_def split: if_splits)

text \<open>The shape of a run of \<open>handleFixCode\<close> that passes its first check.\<close>

lemma handleFixCode_run:
  fixes cb :: chatbot and c :: client and srvFix :: "nat \<Rightarrow> fix_body outcome"
    and srvAnalyze :: "nat \<Rightarrow> analyze_body outcome" and current :: AnalysisResult
  assumes "currentAnalysisResult cb = Some current" and "currentCode cb \<noteq> []"
  defines "fixed \<equiv> fixCode c srvFix (currentCode cb) (errorDesc_of current) (issues current) (currentFileName cb)"
  defines "again \<equiv> analyzeCode c srvAnalyze (fst fixed) (currentFileName cb)"
  shows "snd (handleFixCode cb c srvFix srvAnalyze) =
           (post cb (Fixing ''AI is fixing your code...'') @ snd fixed
              @ post cb (CodeFixed (fst fixed)))
           @ ShowInformationMessage ''Code fixed! Re-analyzing to update score...''
           # (snd again @
               (case fst again of
                  Inr newResult \<Rightarrow>
                    post cb (AnalysisComplete newResult (AnalysisResult.score newResult)
                               (length (issues newResult)) (currentFileName cb))
                    @ [ShowInformationMessage
                         (''Score updated: '' @ string_of_int (AnalysisResult.score newResult) @ ''/100 (''
                            @ AnalysisResult.grade newResult @ '')'')]
                | Inl failure \<Rightarrow> []))"
    and "currentCode (fst (handleFixCode cb c srvFix srvAnalyze)) = fst fixed"
  using assms(1,2) unfolding fixed_def again_def
  by (auto simp: handleFixCode_def errorDesc_of_def post_def Let_def
           split: prod.splits sum.splits list.splits)

text \<open>
  C8. A run of \<open>handleFixCode\<close> that has nothing to fix sends no request. Any other run
  splits at the notice shown once \<open>fixCode\<close> has returned: before it there is the fix
  request and no analysis request; after it there is no fix request, and the analysis
  request there carries the code that \<open>fixCode\<close> returned.
\<close>

theorem fix_then_reanalyze_ordered:
  "(currentAnalysisResult cb = None \<or> currentCode cb = [] \<longrightarrow>
      (\<forall>e\<in>set (snd (handleFixCode cb c srvFix srvAnalyze)).
         \<not> is_fix_request e \<and> \<not> is_analyze_request e))
   \<and> (currentAnalysisResult cb \<noteq> None \<and> currentCode cb \<noteq> [] \<longrightarrow>
      (\<exists>before after.
         snd (handleFixCode cb c srvFix srvAnalyze) =
           before @ ShowInformationMessage ''Code fixed! Re-analyzing to update score...'' # after
         \<and> (\<exists>e\<in>set before. is_fix_request e)
         \<and> (\<forall>e\<in>set before. \<not> is_analyze_request e)
         \<and> (\<exists>e\<in>set after. is_analyze_request e)
         \<and> (\<forall>e\<in>set after. \<not> is_fix_request e)
         \<and> (\<forall>e\<in>set after. is_analyze_request e \<longrightarrow>
               analyzed_code e = Some (currentCode (fst (handleFixCode cb c srvFix srvAnalyze))))
         \<and> (\<exists>current. currentAnalysisResult cb = Some current \<and>
               currentCode (fst (handleFixCode cb c srvFix srvAnalyze)) =
                 fst (fixCode c srvFix (currentCode cb) (errorDesc_of current) (issues current)
                        (currentFileName cb)))))"
proof (intro conjI impI)
  assume "currentAnalysisResult cb = None \<or> currentCode cb = []"
  then show "\<forall>e\<in>set (snd (handleFixCode cb c srvFix srvAnalyze)).
               \<not> is_fix_request e \<and> \<not> is_analyze_request e"
    by (auto simp: handleFixCode_def is_fix_request_def is_analyze_request_def split: option.splits)
next
  assume "currentAnalysisResult cb \<noteq> None \<and> currentCode cb \<noteq> []"
  then obtain current where cur: "currentAnalysisResult cb = Some current" and ne: "currentCode cb \<noteq> []"
    by auto
  define fixed where
    "fixed = fixCode c srvFix (currentCode cb) (errorDesc_of current) (issues current) (currentFileName cb)"
  define again where "again = analyzeCode c srvAnalyze (fst fixed) (currentFileName cb)"
  define before where
    "before = post cb (Fixing ''AI is fixing your code...'') @ snd fixed @ post cb (CodeFixed (fst fixed))"
  define after where
    "after = snd again @
               (case fst again of
                  Inr newResult \<Rightarrow>
                    post cb (AnalysisComplete newResult (AnalysisResult.score newResult)
                               (length (issues newResult)) (currentFileName cb))
                    @ [ShowInformationMessage
                         (''Score updated: '' @ string_of_int (AnalysisResult.score newResult) @ ''/100 (''
                            @ AnalysisResult.grade newResult @ '')'')]
                | Inl failure \<Rightarrow> [])"
  have shape: "snd (handleFixCode cb c srvFix srvAnalyze) =
           before @ ShowInformationMessage ''Code fixed! Re-analyzing to update score...'' # after"
    and code: "currentCode (fst (handleFixCode cb c srvFix srvAnalyze)) = fst fixed"
    using handleFixCode_run[OF cur ne, of c srvFix srvAnalyze]
    unfolding before_def after_def fixed_def again_def by simp_all
  have b1: "\<exists>e\<in>set before. is_fix_request e"
    using fixCode_sends[of c srvFix "currentCode cb" "errorDesc_of current" "issues current" "currentFileName cb"]
    unfolding before_def fixed_def by auto
  have b2: "\<forall>e\<in>set before. \<not> is_analyze_request e"
    unfolding before_def fixed_def using fixCode_events post_events by auto
  have tail: "\<And>e. e \<in> set (case fst again of
                  Inr newResult \<Rightarrow>
                    post cb (AnalysisComplete newResult (AnalysisResult.score newResult)
                               (length (issues newResult)) (currentFileName cb))
                    @ [ShowInformationMessage
                         (''Score updated: '' @ string_of_int (AnalysisResult.score newResult) @ ''/100 (''
                            @ AnalysisResult.grade newResult @ '')'')]
                | Inl failure \<Rightarrow> []) \<Longrightarrow> \<not> is_fix_request e \<and> \<not> is_analyze_request e"
    by (cases "fst again")
       (auto simp: post_def is_fix_request_def is_analyze_request_def split: if_splits)
  have a1: "\<exists>e\<in>set after. is_analyze_request e"
    using analyzeCode_sends[of c srvAnalyze "fst fixed" "currentFileName cb"]
    unfolding after_def again_def by auto
  have a2: "\<forall>e\<in>set after. \<not> is_fix_request e"
    using analyzeCode_events[of _ c srvAnalyze "fst fixed" "currentFileName cb"] tail
    unfolding after_def again_def[symmetric] by (auto simp: again_def)
  have a3: "\<forall>e\<in>set after. is_analyze_request e \<longrightarrow> analyzed_code e = Some (fst fixed)"
    using analyzeCode_events[of _ c srvAnalyze "fst fixed" "currentFileName cb"] tail
    unfolding after_def again_def[symmetric] by (auto simp: again_def)
  show "\<exists>before after.
         snd (handleFixCode cb c srvFix srvAnalyze) =
           before @ ShowInformationMessage ''Code fixed! Re-analyzing to update score...'' # after
         \<and> (\<exists>e\<in>set before. is_fix_request e)
         \<and> (\<forall>e\<in>set before. \<not> is_analyze_request e)
         \<and> (\<exists>e\<in>set after. is_analyze_request e)
         \<and> (\<forall>e\<in>set after. \<not> is_fix_request e)
         \<and> (\<forall>e\<in>set after. is_analyze_request e \<longrightarrow>
               analyzed_code e = Some (currentCode (fst (handleFixCode cb c srvFix srvAnalyze))))
         \<and> (\<exists>current. currentAnalysisResult cb = Some current \<and>
               currentCode (fst (handleFixCode cb c srvFix srvAnalyze)) =
                 fst (fixCode c srvFix (currentCode cb) (errorDesc_of current) (issues current)
                        (currentFileName cb)))"
    using shape code b1 b2 a1 a2 a3 cur unfolding fixed_def
    by (intro exI[of _ before] exI[of _ after]) simp
qed

theorem fix_then_reanalyze_ordered_witness:
  "\<exists>before after.
     snd (handleFixCode
            \<lparr> view = True,
              currentAnalysisResult =
                Some \<lparr> issues = [], score = 40, grade = ''D'', file_type = ''py'', rules_checked = 3 \<rparr>,
              currentCode = ''x = 1'', currentFileName = ''a.py'' \<rparr>
            (new_client []) (\<lambda>k. TimedOut) (\<lambda>k. TimedOut)) =
       before @ ShowInformationMessage ''Code fixed! Re-analyzing to update score...'' # after
     \<and> (\<exists>e\<in>set before. is_fix_request e)
     \<and> (\<forall>e\<in>set before. \<not> is_analyze_request e)
     \<and> (\<exists>e\<in>set after. is_analyze_request e)
     \<and> (\<forall>e\<in>set after. \<not> is_fix_request e)"
proof -
  have "\<exists>before after.
         snd (handleFixCode
            \<lparr> view = True,
              currentAnalysisResult =
                Some \<lparr> issues = [], score = 40, grade = ''D'', file_type = ''py'', rules_checked = 3 \<rparr>,
              currentCode = ''x = 1'', currentFileName = ''a.py'' \<rparr>
            (new_client []) (\<lambda>k. TimedOut) (\<lambda>k. TimedOut)) =
           before @ ShowInformationMessage ''Code fixed! Re-analyzing to update score...'' # after
         \<and> (\<exists>e\<in>set before. is_fix_request e)
         \<and> (\<forall>e\<in>set before. \<not> is_analyze_request e)
         \<and> (\<exists>e\<in>set after. is_analyze_request e)
         \<and> (\<forall>e\<in>set after. \<not> is_fix_request e)
         \<and> (\<forall>e\<in>set after. is_analyze_request e \<longrightarrow>
               analyzed_code e = Some (currentCode (fst (handleFixCode
            \<lparr> view = True,
              currentAnalysisResult =
                Some \<lparr> issues = [], score = 40, grade = ''D'', file_type = ''py'', rules_checked = 3 \<rparr>,
              currentCode = ''x = 1'', currentFileName = ''a.py'' \<rparr>
            (new_client []) (\<lambda>k. TimedOut) (\<lambda>k. TimedOut)))))
         \<and> (\<exists>current. currentAnalysisResult \<lparr> view = True,
              currentAnalysisResult =
                Some \<lparr> issues = [], score = 40, grade = ''D'', file_type = ''py'', rules_checked = 3 \<rparr>,
              currentCode = ''x = 1'', currentFileName = ''a.py'' \<rparr> = Some current \<and>
               currentCode (fst (handleFixCode \<lparr> view = True,
              currentAnalysisResult =
                Some \<lparr> issues = [], score = 40, grade = ''D'', file_type = ''py'', rules_checked = 3 \<rparr>,
              currentCode = ''x = 1'', currentFileName = ''a.py'' \<rparr>
            (new_client []) (\<lambda>k. TimedOut) (\<lambda>k. TimedOut))) =
                 fst (fixCode (new_client []) (\<lambda>k. TimedOut) (currentCode \<lparr> view = True,
              currentAnalysisResult =
                Some \<lparr> issues = [], score = 40, grade = ''D'', file_type = ''py'', rules_checked = 3 \<rparr>,
              currentCode = ''x = 1'', currentFileName = ''a.py'' \<rparr>) (errorDesc_of current) (issues current)
                        (currentFileName \<lparr> view = True,
              currentAnalysisResult =
                Some \<lparr> issues = [], score = 40, grade = ''D'', file_type = ''py'', rules_checked = 3 \<rparr>,
              currentCode = ''x = 1'', currentFileName = ''a.py'' \<rparr>)))"
    by (rule fix_then_reanalyze_ordered[THEN conjunct2, rule_format]) simp
  then show ?thesis by blast
qed

section \<open>The rating shown for a score\<close>

lemma deliver_append: "deliver (xs @ ys) p = deliver ys (deliver xs p)"
  by (induction xs p rule: deliver.induct) simp_all

lemma deliver_silent: "(\<forall>e\<in>set evs. \<forall>m. e \<noteq> PostMessage m) \<Longrightarrow> deliver evs p = p"
  by (induction evs p rule: deliver.induct) simp_all

lemma makeRequest_silent:
  "\<forall>e\<in>set (snd (makeRequest c srv endpoint how body tmo)). \<forall>m. e \<noteq> PostMessage m"
  using makeRequest_events[of _ c srv endpoint how body tmo] by blast

lemma deliver_analyzeCode: "deliver (snd (analyzeCode c srv src name)) p = p"
  unfolding analyzeCode_events_eq by (rule deliver_silent) (rule makeRequest_silent)

lemma deliver_fixCode: "deliver (snd (fixCode c srv src err issue_list name)) p = p"
  using fixCode_events_cases[of c srv src err issue_list name]
        deliver_silent[OF makeRequest_silent, of c srv "''/fix''" POST
                          "Some (FixData src err issue_list name)" "timeout c" p]
  by (auto simp: deliver_append)

lemma scoreRating_webview:
  "scoreRating (webview_showAnalysisResults s name p) =
     (if s \<ge> 80 then ''Excellent'' else if s \<ge> 50 then ''Needs Improvement'' else ''Poor'')"
  by (simp add: webview_showAnalysisResults_def addMessage_def Let_def)

lemma scoreRating_band_webview:
  "scoreRating_band (webview_showAnalysisResults s name p) = step_band 80 50 s"
  by (simp add: scoreRating_band_def scoreRating_webview step_band_def)

lemma analyze_path_rating:
  "view cb \<Longrightarrow>
     scoreRating_band (snd (analyze_path cb result src name p)) = step_band 80 50 (AnalysisResult.score result)"
  by (simp add: analyze_path_def showAnalysisResults_def post_def receive_def Let_def
                scoreRating_band_webview)

lemma analyze_path_statusBar:
  "statusBar_band (fst (analyze_path cb result src name p)) = step_band 90 70 (AnalysisResult.score result)"
  by (simp add: analyze_path_def statusBar_update_def statusBar_band_def step_band_def)

lemma reanalyze_path_rating:
  assumes "view cb" and cur: "currentAnalysisResult cb = Some current" and ne: "currentCode cb \<noteq> []"
    and ok: "fst (analyzeCode c srvAnalyze
                   (fst (fixCode c srvFix (currentCode cb) (errorDesc_of current) (issues current)
                           (currentFileName cb)))
                   (currentFileName cb)) = Inr newResult"
  shows "scoreRating_band (snd (reanalyze_path cb c srvFix srvAnalyze bar p))
           = step_band 80 50 (AnalysisResult.score newResult)"
  using \<open>view cb\<close>
  by (simp add: reanalyze_path_def handleFixCode_run(1)[OF cur ne] ok deliver_append
                deliver_fixCode deliver_analyzeCode post_def receive_def scoreRating_band_webview)

text \<open>
  C3, as the code has it. The score card's rating is a three-level step function of the
  score with the thresholds 80 and 50, and it is the same function after an analysis
  started from the editor and after the analysis that follows a fix. The status bar is
  written on the first path only, by a step function with the thresholds 90 and 70; the
  second path leaves it as it was.
\<close>

theorem score_rating_same_on_both_paths:
  "(view cb \<longrightarrow>
      scoreRating_band (snd (analyze_path cb result src name p))
        = step_band 80 50 (AnalysisResult.score result))
   \<and> (view cb \<and> currentAnalysisResult cb = Some current \<and> currentCode cb \<noteq> [] \<and>
      fst (analyzeCode c srvAnalyze
             (fst (fixCode c srvFix (currentCode cb) (errorDesc_of current) (issues current)
                     (currentFileName cb)))
             (currentFileName cb)) = Inr newResult \<longrightarrow>
      scoreRating_band (snd (reanalyze_path cb c srvFix srvAnalyze bar p))
        = step_band 80 50 (AnalysisResult.score newResult))
   \<and> statusBar_band (fst (analyze_path cb result src name p))
        = step_band 90 70 (AnalysisResult.score result)
   \<and> fst (reanalyze_path cb c srvFix srvAnalyze bar p) = bar"
  using analyze_path_rating[of cb result src name p]
        reanalyze_path_rating[of cb current c srvAnalyze srvFix newResult bar p]
        analyze_path_statusBar[of cb result src name p]
  by (simp add: reanalyze_path_def)

lemma example_fix_then_analysis:
  "fst (analyzeCode (new_client [])
          (\<lambda>k. Responded 200 None
                 (Some \<lparr> body_success = True, body_issues = Some [], body_score = Some 85,
                         body_grade = Some ''B'', body_file_type = Some ''py'',
                         body_rules_checked = Some 3 \<rparr>))
          (fst (fixCode (new_client [])
                  (\<lambda>k. Responded 200 None (Some \<lparr> fix_success = True, fixed_code = Some ''y = 1'' \<rparr>))
                  ''x = 1'' err issue_list ''a.py''))
          ''a.py'')
   = Inr \<lparr> issues = [], score = 85, grade = ''B'', file_type = ''py'', rules_checked = 3 \<rparr>"
proof -
  let ?body = "\<lparr> body_success = True, body_issues = Some [], body_score = Some 85,
                 body_grade = Some ''B'', body_file_type = Some ''py'',
                 body_rules_checked = Some 3 \<rparr>"
  let ?fixed = "fst (fixCode (new_client [])
                  (\<lambda>k. Responded 200 None (Some \<lparr> fix_success = True, fixed_code = Some ''y = 1'' \<rparr>))
                  ''x = 1'' err issue_list ''a.py'')"
  have "\<exists>evs. makeRequest (new_client []) (\<lambda>k. Responded 200 None (Some ?body))
          ''/analyze'' POST (Some (AnalyzeData ?fixed ''a.py'')) (timeout (new_client []))
        = (Inr (Some ?body), evs)"
    using makeRequest_first_success[of 0 "new_client []" "\<lambda>k. Responded 200 None (Some ?body)"
            "Some ?body" "''/analyze''" POST "Some (AnalyzeData ?fixed ''a.py'')"
            "timeout (new_client [])"]
    by (simp add: try_attempt_ok)
  then obtain evs where "makeRequest (new_client []) (\<lambda>k. Responded 200 None (Some ?body))
          ''/analyze'' POST (Some (AnalyzeData ?fixed ''a.py'')) (timeout (new_client []))
        = (Inr (Some ?body), evs)"
    by blast
  then show ?thesis
    by (simp add: analyzeCode_def or_else_def or_default_def)
qed

theorem score_rating_same_on_both_paths_witness:
  "scoreRating_band
     (snd (analyze_path
             \<lparr> view = True, currentAnalysisResult = None, currentCode = [], currentFileName = [] \<rparr>
             \<lparr> issues = [], score = 85, grade = ''B'', file_type = ''py'', rules_checked = 3 \<rparr>
             ''y = 1'' ''a.py'' initial_page)) = Upper
   \<and> scoreRating_band
       (snd (reanalyze_path
               \<lparr> view = True,
                 currentAnalysisResult =
                   Some \<lparr> issues = [], score = 40, grade = ''D'', file_type = ''py'', rules_checked = 3 \<rparr>,
                 currentCode = ''x = 1'', currentFileName = ''a.py'' \<rparr>
               (new_client [])
               (\<lambda>k. Responded 200 None (Some \<lparr> fix_success = True, fixed_code = Some ''y = 1'' \<rparr>))
               (\<lambda>k. Responded 200 None
                      (Some \<lparr> body_success = True, body_issues = Some [], body_score = Some 85,
                              body_grade = Some ''B'', body_file_type = Some ''py'',
                              body_rules_checked = Some 3 \<rparr>))
               \<lparr> item_text = ''$(check) Schneider AI Ready'', backgroundColor = None \<rparr>
               initial_page)) = Upper"
proof -
  have a: "scoreRating_band
     (snd (analyze_path
             \<lparr> view = True, currentAnalysisResult = None, currentCode = [], currentFileName = [] \<rparr>
             \<lparr> issues = [], score = 85, grade = ''B'', file_type = ''py'', rules_checked = 3 \<rparr>
             ''y = 1'' ''a.py'' initial_page)) = Upper"
    using score_rating_same_on_both_paths[THEN conjunct1, rule_format,
            of "\<lparr> view = True, currentAnalysisResult = None, currentCode = [], currentFileName = [] \<rparr>"
               "\<lparr> issues = [], score = 85, grade = ''B'', file_type = ''py'', rules_checked = 3 \<rparr>"
               "''y = 1''" "''a.py''" initial_page]
    by (simp add: step_band_def)
  have b: "scoreRating_band
       (snd (reanalyze_path
               \<lparr> view = True,
                 currentAnalysisResult =
                   Some \<lparr> issues = [], score = 40, grade = ''D'', file_type = ''py'', rules_checked = 3 \<rparr>,
                 currentCode = ''x = 1'', currentFileName = ''a.py'' \<rparr>
               (new_client [])
               (\<lambda>k. Responded 200 None (Some \<lparr> fix_success = True, fixed_code = Some ''y = 1'' \<rparr>))
               (\<lambda>k. Responded 200 None
                      (Some \<lparr> body_success = True, body_issues = Some [], body_score = Some 85,
                              body_grade = Some ''B'', body_file_type = Some ''py'',
                              body_rules_checked = Some 3 \<rparr>))
               \<lparr> item_text = ''$(check) Schneider AI Ready'', backgroundColor = None \<rparr>
               initial_page)) = Upper"
    using score_rating_same_on_both_paths[THEN conjunct2, THEN conjunct1, rule_format,
            of "\<lparr> view = True,
                 currentAnalysisResult =
                   Some \<lparr> issues = [], score = 40, grade = ''D'', file_type = ''py'', rules_checked = 3 \<rparr>,
                 currentCode = ''x = 1'', currentFileName = ''a.py'' \<rparr>"
               "\<lparr> issues = [], score = 40, grade = ''D'', file_type = ''py'', rules_checked = 3 \<rparr>"
               "new_client []"
               "\<lambda>k. Responded 200 None
                      (Some \<lparr> body_success = True, body_issues = Some [], body_score = Some 85,
                              body_grade = Some ''B'', body_file_type = Some ''py'',
                              body_rules_checked = Some 3 \<rparr>)"
               "\<lambda>k. Responded 200 None (Some \<lparr> fix_success = True, fixed_code = Some ''y = 1'' \<rparr>)"
               "\<lparr> issues = [], score = 85, grade = ''B'', file_type = ''py'', rules_checked = 3 \<rparr>"
               "\<lparr> item_text = ''$(check) Schneider AI Ready'', backgroundColor = None \<rparr>"
               initial_page]
          example_fix_then_analysis
    by (simp add: step_band_def)
  show ?thesis using a b by blast
qed

text \<open>
  C3, as stated, fails: for the score 85 the analysis started from the editor shows the
  middle level in the status bar, and the analysis after a fix shows the upper level on
  the score card.
\<close>

theorem score_85_two_bands:
  "statusBar_band
     (fst (analyze_path
             \<lparr> view = True, currentAnalysisResult = None, currentCode = [], currentFileName = [] \<rparr>
             \<lparr> issues = [], score = 85, grade = ''B'', file_type = ''py'', rules_checked = 3 \<rparr>
             ''y = 1'' ''a.py'' initial_page)) = Middle
   \<and> scoreRating_band
       (snd (reanalyze_path
               \<lparr> view = True,
                 currentAnalysisResult =
                   Some \<lparr> issues = [], score = 40, grade = ''D'', file_type = ''py'', rules_checked = 3 \<rparr>,
                 currentCode = ''x = 1'', currentFileName = ''a.py'' \<rparr>
               (new_client [])
               (\<lambda>k. Responded 200 None (Some \<lparr> fix_success = True, fixed_code = Some ''y = 1'' \<rparr>))
               (\<lambda>k. Responded 200 None
                      (Some \<lparr> body_success = True, body_issues = Some [], body_score = Some 85,
                              body_grade = Some ''B'', body_file_type = Some ''py'',
                              body_rules_checked = Some 3 \<rparr>))
               \<lparr> item_text = ''$(check) Schneider AI Ready'', backgroundColor = None \<rparr>
               initial_page)) = Upper"
proof -
  have a: "statusBar_band
     (fst (analyze_path
             \<lparr> view = True, currentAnalysisResult = None, currentCode = [], currentFileName = [] \<rparr>
             \<lparr> issues = [], score = 85, grade = ''B'', file_type = ''py'', rules_checked = 3 \<rparr>
             ''y = 1'' ''a.py'' initial_page)) = Middle"
    by (simp add: analyze_path_statusBar step_band_def)
  have b: "scoreRating_band
       (snd (reanalyze_path
               \<lparr> view = True,
                 currentAnalysisResult =
                   Some \<lparr> issues = [], score = 40, grade = ''D'', file_type = ''py'', rules_checked = 3 \<rparr>,
                 currentCode = ''x = 1'', currentFileName = ''a.py'' \<rparr>
               (new_client [])
               (\<lambda>k. Responded 200 None (Some \<lparr> fix_success = True, fixed_code = Some ''y = 1'' \<rparr>))
               (\<lambda>k. Responded 200 None
                      (Some \<lparr> body_success = True, body_issues = Some [], body_score = Some 85,
                              body_grade = Some ''B'', body_file_type = Some ''py'',
                              body_rules_checked = Some 3 \<rparr>))
               \<lparr> item_text = ''$(check) Schneider AI Ready'', backgroundColor = None \<rparr>
               initial_page)) = Upper"
    by (subst reanalyze_path_rating[where
            current = "\<lparr> issues = [], score = 40, grade = ''D'', file_type = ''py'', rules_checked = 3 \<rparr>"
            and newResult = "\<lparr> issues = [], score = 85, grade = ''B'', file_type = ''py'', rules_checked = 3 \<rparr>"])
       (simp_all add: example_fix_then_analysis step_band_def)
  show ?thesis using a b by blast
qed

section \<open>The reply parser\<close>














end
